theory Spec2Isabelle
  imports Main "HOL-Library.AList" "HOL-Library.Sublist"
begin

section \<open>JavaScript data\<close>

text \<open>
  The repository is JavaScript: \<^verbatim>\<open>src/models/Task.js\<close> (the Task entity) and
  \<^verbatim>\<open>src/utils/StorageManager.js\<close> (the adapter over \<^verbatim>\<open>localStorage\<close>).
  Its methods take untyped arguments, so the embedding works on a datatype of JavaScript
  data: the primitives, arrays and plain objects (an object is the list of its own
  properties, in insertion order; no property is a function or an accessor, as in
  everything \<^verbatim>\<open>JSON.parse\<close> returns). A \<open>string\<close> is a sequence of code units,
  restricted to the code units below 256; \<open>JNum n\<close> is the Number with the integral
  mathematical value \<open>n\<close>.
\<close>

datatype jsval =
    JUndefined
  | JNull
  | JBool bool
  | JNum int
  | JStr string
  | JArray "jsval list"
  | JObject "(string \<times> jsval) list"

text \<open>
  What a JavaScript statement can throw. \<open>Error msg\<close> is \<^verbatim>\<open>new Error(msg)\<close>, the only
  exception the source constructs itself; the others are raised by the engine or by the
  storage substrate, with engine-specific messages that are not modelled.
\<close>

datatype js_error =
    Error string
  | TypeError
  | RangeError
  | SyntaxError
  | QuotaExceededError
  | SecurityError

text \<open>Sequencing of statements that can throw: the first exception ends the block.\<close>

definition and_then :: "js_error + 'a \<Rightarrow> ('a \<Rightarrow> js_error + 'b) \<Rightarrow> js_error + 'b" where
  "and_then m f = (case m of Inl e \<Rightarrow> Inl e | Inr x \<Rightarrow> f x)"

text \<open>
  Built-in functions of the platform that the source calls and whose results this
  development does not compute: rendering a Number as text, \<^verbatim>\<open>Date.prototype.toISOString\<close>
  on a valid time value (milliseconds since the epoch), \<^verbatim>\<open>Date.parse\<close> (\<open>None\<close> is NaN),
  \<^verbatim>\<open>JSON.stringify\<close> (\<open>None\<close> is the result \<^verbatim>\<open>undefined\<close>) and \<^verbatim>\<open>JSON.parse\<close>. They are
  parameters of every definition that reaches them.
\<close>

record platform =
  Number_toString :: "int \<Rightarrow> string"
  Date_toISOString :: "int \<Rightarrow> string"
  Date_parse :: "string \<Rightarrow> int option"
  JSON_stringify :: "jsval \<Rightarrow> js_error + string option"
  JSON_parse :: "string \<Rightarrow> js_error + jsval"

subsection \<open>Conversions the source relies on\<close>

text \<open>\<^verbatim>\<open>!v\<close> and \<^verbatim>\<open>v ? a : b\<close> test ToBoolean.\<close>

fun truthy :: "jsval \<Rightarrow> bool" where
  "truthy JUndefined = False"
| "truthy JNull = False"
| "truthy (JBool b) = b"
| "truthy (JNum n) = (n \<noteq> 0)"
| "truthy (JStr s) = (s \<noteq> [])"
| "truthy (JArray xs) = True"
| "truthy (JObject kvs) = True"

text \<open>
  ToString, as the template literal in \<^verbatim>\<open>_validatePriority\<close> applies it. An array is
  joined with commas (\<^verbatim>\<open>undefined\<close> and \<^verbatim>\<open>null\<close> elements render as nothing); a plain
  object renders as \<^verbatim>\<open>[object Object]\<close>, unless an own data property shadows
  \<^verbatim>\<open>toString\<close>, in which case the conversion throws a TypeError.
\<close>

fun ToString :: "platform \<Rightarrow> jsval \<Rightarrow> js_error + string"
  and join_elements :: "platform \<Rightarrow> jsval list \<Rightarrow> js_error + string" where
  "ToString P JUndefined = Inr ''undefined''"
| "ToString P JNull = Inr ''null''"
| "ToString P (JBool b) = Inr (if b then ''true'' else ''false'')"
| "ToString P (JNum n) = Inr (Number_toString P n)"
| "ToString P (JStr s) = Inr s"
| "ToString P (JArray xs) = join_elements P xs"
| "ToString P (JObject kvs) =
     (if ''toString'' \<in> fst ` set kvs then Inl TypeError else Inr ''[object Object]'')"
| "join_elements P [] = Inr []"
| "join_elements P (x # xs) =
     (case (if x = JUndefined \<or> x = JNull then Inr [] else ToString P x) of
        Inl e \<Rightarrow> Inl e
      | Inr s \<Rightarrow>
          (if xs = [] then Inr s
           else (case join_elements P xs of
                   Inl e \<Rightarrow> Inl e
                 | Inr t \<Rightarrow> Inr (s @ '','' @ t))))"

text \<open>
  \<^verbatim>\<open>String.prototype.trim\<close> strips WhiteSpace and LineTerminator code units from both
  ends: below 256 these are TAB, LF, VT, FF, CR, SPACE and NBSP.
\<close>

definition isWhiteSpace :: "char \<Rightarrow> bool" where
  "isWhiteSpace c = (of_char c \<in> {9, 10, 11, 12, 13, 32, 160 :: nat})"

definition trim :: "string \<Rightarrow> string" where
  "trim s = rev (dropWhile isWhiteSpace (rev (dropWhile isWhiteSpace s)))"

text \<open>
  The method call \<^verbatim>\<open>v.trim()\<close>: only a string has the method; on every other datum of
  \<open>jsval\<close> the property is missing or not callable, and the call throws a TypeError.
\<close>

fun String_trim :: "jsval \<Rightarrow> js_error + string" where
  "String_trim (JStr s) = Inr (trim s)"
| "String_trim v = Inl TypeError"

text \<open>\<^verbatim>\<open>Array.prototype.join\<close> on an array of strings.\<close>

fun join :: "string \<Rightarrow> string list \<Rightarrow> string" where
  "join sep [] = []"
| "join sep [x] = x"
| "join sep (x # y # ys) = x @ sep @ join sep (y # ys)"

text \<open>
  Reading a property \<^verbatim>\<open>data.name\<close>, for the names the source reads (\<^verbatim>\<open>id\<close>,
  \<^verbatim>\<open>title\<close>, \<^verbatim>\<open>description\<close>, \<^verbatim>\<open>priority\<close>, \<^verbatim>\<open>completed\<close>, \<^verbatim>\<open>createdAt\<close>,
  \<^verbatim>\<open>updatedAt\<close>; no built-in prototype defines one of them): it throws on \<^verbatim>\<open>undefined\<close>
  and \<^verbatim>\<open>null\<close>, finds an own property of an object, and is \<^verbatim>\<open>undefined\<close> otherwise.
\<close>

fun get_prop :: "jsval \<Rightarrow> string \<Rightarrow> js_error + jsval" where
  "get_prop JUndefined name = Inl TypeError"
| "get_prop JNull name = Inl TypeError"
| "get_prop (JObject kvs) name =
     Inr (case map_of kvs name of None \<Rightarrow> JUndefined | Some v \<Rightarrow> v)"
| "get_prop v name = Inr JUndefined"

subsection \<open>Dates\<close>

text \<open>
  A Date object holds a time value: an integral number of milliseconds since the epoch,
  or NaN (an invalid date).
\<close>

datatype date = Date int | Invalid_Date

text \<open>\<^verbatim>\<open>d.toISOString()\<close> throws a RangeError on an invalid date.\<close>

fun toISOString :: "platform \<Rightarrow> date \<Rightarrow> js_error + string" where
  "toISOString P (Date t) = Inr (Date_toISOString P t)"
| "toISOString P Invalid_Date = Inl RangeError"

text \<open>TimeClip: a time value is at most 8.64e15 in magnitude.\<close>

definition TimeClip :: "int \<Rightarrow> date" where
  "TimeClip n = (if \<bar>n\<bar> \<le> 8640000000000000 then Date n else Invalid_Date)"

definition date_of_string :: "platform \<Rightarrow> string \<Rightarrow> date" where
  "date_of_string P s = (case Date_parse P s of None \<Rightarrow> Invalid_Date | Some t \<Rightarrow> Date t)"

text \<open>
  \<^verbatim>\<open>new Date(v)\<close> with one argument: a string is parsed; any other primitive is converted
  to a Number (\<^verbatim>\<open>undefined\<close> to NaN, \<^verbatim>\<open>null\<close> and \<^verbatim>\<open>false\<close> to 0, \<^verbatim>\<open>true\<close> to 1) and
  clipped; an array or object is first converted to a primitive, which for plain data is
  its string.
\<close>

fun new_Date :: "platform \<Rightarrow> jsval \<Rightarrow> js_error + date" where
  "new_Date P (JStr s) = Inr (date_of_string P s)"
| "new_Date P JUndefined = Inr Invalid_Date"
| "new_Date P JNull = Inr (Date 0)"
| "new_Date P (JBool b) = Inr (Date (if b then 1 else 0))"
| "new_Date P (JNum n) = Inr (TimeClip n)"
| "new_Date P v = and_then (ToString P v) (\<lambda>s. Inr (date_of_string P s))"

text \<open>\<^verbatim>\<open>a <= b\<close> on two Dates compares the time values; a comparison with NaN is false.\<close>

fun date_le :: "date \<Rightarrow> date \<Rightarrow> bool" where
  "date_le (Date a) (Date b) = (a \<le> b)"
| "date_le a b = False"

section \<open>The Task entity (src/models/Task.js)\<close>

text \<open>
  The private properties of a Task. \<^verbatim>\<open>_title\<close> and \<^verbatim>\<open>_description\<close> are always results
  of \<^verbatim>\<open>trim()\<close> or the literal \<^verbatim>\<open>''\<close>, hence strings; \<^verbatim>\<open>_id\<close>, \<^verbatim>\<open>_priority\<close> and
  \<^verbatim>\<open>_completed\<close> can be assigned whatever a caller or a stored record supplies.
\<close>

record task =
  task_id :: jsval
  task_title :: string
  task_description :: string
  task_priority :: jsval
  task_completed :: jsval
  task_createdAt :: date
  task_updatedAt :: date

text \<open>
  What the environment answers during one run of the constructor, in the order the
  constructor asks: \<^verbatim>\<open>Date.now()\<close> and \<^verbatim>\<open>Math.random().toString(36).substr(2, 9)\<close> in
  \<^verbatim>\<open>_generateId\<close>, then the two \<^verbatim>\<open>new Date()\<close> for \<^verbatim>\<open>_createdAt\<close> and \<^verbatim>\<open>_updatedAt\<close>.
\<close>

record readings =
  now_id :: int
  random_id :: string
  now_created :: int
  now_updated :: int

definition generateId :: "platform \<Rightarrow> readings \<Rightarrow> string" where
  "generateId P r = ''task_'' @ Number_toString P (now_id r) @ ''_'' @ random_id r"

definition validPriorities :: "string list" where
  "validPriorities = [''low'', ''medium'', ''high'']"

text \<open>
  \<^verbatim>\<open>_validatePriority\<close>: \<^verbatim>\<open>includes\<close> compares with SameValueZero, so only the three
  strings pass; otherwise the message is built from the rejected datum.
\<close>

definition validatePriority :: "platform \<Rightarrow> jsval \<Rightarrow> js_error + jsval" where
  "validatePriority P priority =
     (if priority \<in> set (map JStr validPriorities) then Inr priority
      else and_then (ToString P priority) (\<lambda>shown.
        Inl (Error (''Invalid priority: '' @ shown @ ''. Must be one of: ''
                    @ join '', '' validPriorities))))"

text \<open>The guard \<^verbatim>\<open>!title || title.trim() === ''\<close> of the constructor and of \<^verbatim>\<open>updateTitle\<close>.\<close>

definition title_missing :: "jsval \<Rightarrow> js_error + bool" where
  "title_missing title =
     (if \<not> truthy title then Inr True
      else and_then (String_trim title) (\<lambda>s. Inr (s = [])))"

text \<open>The expression \<^verbatim>\<open>description ? description.trim() : ''\<close>.\<close>

definition description_text :: "jsval \<Rightarrow> js_error + string" where
  "description_text description =
     (if truthy description then String_trim description else Inr [])"

text \<open>
  The constructor; the default \<^verbatim>\<open>priority = 'medium'\<close> replaces an argument that is
  \<^verbatim>\<open>undefined\<close>. The statements run in the source's order, and the first exception ends
  the construction.
\<close>

definition Task_new :: "platform \<Rightarrow> readings \<Rightarrow> jsval \<Rightarrow> jsval \<Rightarrow> jsval \<Rightarrow> js_error + task" where
  "Task_new P r title description priority0 =
     (let priority = (if priority0 = JUndefined then JStr ''medium'' else priority0) in
      and_then (title_missing title) (\<lambda>missing.
        if missing then Inl (Error ''Task title is required'')
        else
          and_then (String_trim title) (\<lambda>title'.
          and_then (description_text description) (\<lambda>description'.
          and_then (validatePriority P priority) (\<lambda>priority'.
            Inr \<lparr> task_id = JStr (generateId P r),
                  task_title = title',
                  task_description = description',
                  task_priority = priority',
                  task_completed = JBool False,
                  task_createdAt = Date (now_created r),
                  task_updatedAt = Date (now_updated r) \<rparr>)))))"

text \<open>
  The mutating methods return what the call does (\<open>Inl\<close>: it throws) together with the
  object as the call leaves it. \<open>now\<close> is the time the method's \<^verbatim>\<open>new Date()\<close> reads.
\<close>

definition markComplete :: "int \<Rightarrow> task \<Rightarrow> (js_error + unit) \<times> task" where
  "markComplete now this =
     (Inr (), this\<lparr> task_completed := JBool True, task_updatedAt := Date now \<rparr>)"

definition markIncomplete :: "int \<Rightarrow> task \<Rightarrow> (js_error + unit) \<times> task" where
  "markIncomplete now this =
     (Inr (), this\<lparr> task_completed := JBool False, task_updatedAt := Date now \<rparr>)"

definition updateTitle :: "int \<Rightarrow> jsval \<Rightarrow> task \<Rightarrow> (js_error + unit) \<times> task" where
  "updateTitle now newTitle this =
     (case title_missing newTitle of
        Inl e \<Rightarrow> (Inl e, this)
      | Inr True \<Rightarrow> (Inl (Error ''Task title cannot be empty''), this)
      | Inr False \<Rightarrow>
          (case String_trim newTitle of
             Inl e \<Rightarrow> (Inl e, this)
           | Inr title' \<Rightarrow>
               (Inr (), this\<lparr> task_title := title', task_updatedAt := Date now \<rparr>)))"

definition updateDescription :: "int \<Rightarrow> jsval \<Rightarrow> task \<Rightarrow> (js_error + unit) \<times> task" where
  "updateDescription now newDescription this =
     (case description_text newDescription of
        Inl e \<Rightarrow> (Inl e, this)
      | Inr description' \<Rightarrow>
          (Inr (), this\<lparr> task_description := description', task_updatedAt := Date now \<rparr>))"

definition updatePriority :: "platform \<Rightarrow> int \<Rightarrow> jsval \<Rightarrow> task \<Rightarrow> (js_error + unit) \<times> task" where
  "updatePriority P now newPriority this =
     (case validatePriority P newPriority of
        Inl e \<Rightarrow> (Inl e, this)
      | Inr priority' \<Rightarrow>
          (Inr (), this\<lparr> task_priority := priority', task_updatedAt := Date now \<rparr>))"

text \<open>\<^verbatim>\<open>toJSON\<close>: the two \<^verbatim>\<open>toISOString()\<close> calls can throw.\<close>

definition toJSON :: "platform \<Rightarrow> task \<Rightarrow> js_error + jsval" where
  "toJSON P this =
     and_then (toISOString P (task_createdAt this)) (\<lambda>created.
     and_then (toISOString P (task_updatedAt this)) (\<lambda>updated.
       Inr (JObject
         [ (''id'', task_id this),
           (''title'', JStr (task_title this)),
           (''description'', JStr (task_description this)),
           (''priority'', task_priority this),
           (''completed'', task_completed this),
           (''createdAt'', JStr created),
           (''updatedAt'', JStr updated) ])))"

text \<open>
  \<^verbatim>\<open>fromJSON\<close>: runs the constructor on the record's title, description and priority
  (\<open>r\<close> is what the environment answers to that run), then overwrites the other four
  properties with what the record holds.
\<close>

definition fromJSON :: "platform \<Rightarrow> readings \<Rightarrow> jsval \<Rightarrow> js_error + task" where
  "fromJSON P r data =
     and_then (get_prop data ''title'') (\<lambda>title.
     and_then (get_prop data ''description'') (\<lambda>description.
     and_then (get_prop data ''priority'') (\<lambda>priority.
     and_then (Task_new P r title description priority) (\<lambda>task.
     and_then (get_prop data ''id'') (\<lambda>id'.
     and_then (get_prop data ''completed'') (\<lambda>completed.
     and_then (get_prop data ''createdAt'') (\<lambda>created.
     and_then (new_Date P created) (\<lambda>createdAt.
     and_then (get_prop data ''updatedAt'') (\<lambda>updated.
     and_then (new_Date P updated) (\<lambda>updatedAt.
       Inr (task\<lparr> task_id := id',
                  task_completed := completed,
                  task_createdAt := createdAt,
                  task_updatedAt := updatedAt \<rparr>)))))))))))"

text \<open>
  A caller's use of a Task over time: a sequence of method calls, each with the time the
  clock shows when it is made. A call that throws leaves the Task as it was (each method
  checks before it assigns), and the caller goes on with it.
\<close>

datatype call =
    MarkComplete
  | MarkIncomplete
  | UpdateTitle jsval
  | UpdateDescription jsval
  | UpdatePriority jsval

fun invoke :: "platform \<Rightarrow> int \<Rightarrow> call \<Rightarrow> task \<Rightarrow> (js_error + unit) \<times> task" where
  "invoke P now MarkComplete this = markComplete now this"
| "invoke P now MarkIncomplete this = markIncomplete now this"
| "invoke P now (UpdateTitle newTitle) this = updateTitle now newTitle this"
| "invoke P now (UpdateDescription newDescription) this =
     updateDescription now newDescription this"
| "invoke P now (UpdatePriority newPriority) this = updatePriority P now newPriority this"

fun run :: "platform \<Rightarrow> (int \<times> call) list \<Rightarrow> task \<Rightarrow> task" where
  "run P [] this = this"
| "run P ((now, c) # rest) this = run P rest (snd (invoke P now c this))"

text \<open>The clock does not run backwards: from the time \<open>d\<close> on, through the calls.\<close>

fun clock_runs_forward :: "date \<Rightarrow> (int \<times> call) list \<Rightarrow> bool" where
  "clock_runs_forward d [] = True"
| "clock_runs_forward d ((now, c) # rest) =
     (date_le d (Date now) \<and> clock_runs_forward (Date now) rest)"

text \<open>
  The platform's part of the round trip of a timestamp: the date is valid, and
  \<^verbatim>\<open>Date.parse\<close> reads back the text \<^verbatim>\<open>toISOString\<close> writes for it.
\<close>

fun reads_back :: "platform \<Rightarrow> date \<Rightarrow> bool" where
  "reads_back P (Date t) = (Date_parse P (Date_toISOString P t) = Some t)"
| "reads_back P Invalid_Date = False"

section \<open>The storage substrate\<close>

text \<open>
  \<^verbatim>\<open>localStorage\<close> is the browser's, not the repository's. It is modelled after the Web
  Storage interface the adapter is written against: an ordered list of entries with
  distinct keys, string-keyed and string-valued. Two things make its operations throw, as
  the spec's section 6 allows (each "may fail (raise)"): the store can be inaccessible
  altogether (\<open>ls_denied\<close>: every evaluation of \<^verbatim>\<open>localStorage\<close> throws), and a write is
  refused with a QuotaExceededError when the entries would take more than \<open>ls_quota\<close>
  code units.
\<close>

record local_storage =
  ls_items :: "(string \<times> string) list"
  ls_quota :: nat
  ls_denied :: bool

definition stored_size :: "(string \<times> string) list \<Rightarrow> nat" where
  "stored_size kvs = sum_list (map (\<lambda>(k, v). length k + length v) kvs)"

text \<open>
  \<^verbatim>\<open>setItem\<close> replaces the text of an existing key in place and appends a new key;
  \<^verbatim>\<open>removeItem\<close> of a key that is not there does nothing; \<^verbatim>\<open>getItem\<close> of such a key and
  \<^verbatim>\<open>key(i)\<close> past the end are \<^verbatim>\<open>null\<close> (\<open>None\<close>).
\<close>

definition setItem :: "string \<Rightarrow> string \<Rightarrow> local_storage \<Rightarrow> (js_error + unit) \<times> local_storage" where
  "setItem k v ls =
     (if ls_denied ls then (Inl SecurityError, ls)
      else if stored_size (AList.update k v (ls_items ls)) > ls_quota ls
        then (Inl QuotaExceededError, ls)
      else (Inr (), ls\<lparr> ls_items := AList.update k v (ls_items ls) \<rparr>))"

definition removeItem :: "string \<Rightarrow> local_storage \<Rightarrow> (js_error + unit) \<times> local_storage" where
  "removeItem k ls =
     (if ls_denied ls then (Inl SecurityError, ls)
      else (Inr (), ls\<lparr> ls_items := AList.delete k (ls_items ls) \<rparr>))"

definition getItem :: "string \<Rightarrow> local_storage \<Rightarrow> js_error + string option" where
  "getItem k ls =
     (if ls_denied ls then Inl SecurityError else Inr (map_of (ls_items ls) k))"

definition storage_length :: "local_storage \<Rightarrow> js_error + nat" where
  "storage_length ls =
     (if ls_denied ls then Inl SecurityError else Inr (length (ls_items ls)))"

definition storage_key :: "nat \<Rightarrow> local_storage \<Rightarrow> js_error + string option" where
  "storage_key i ls =
     (if ls_denied ls then Inl SecurityError
      else if i < length (ls_items ls) then Inr (Some (fst (ls_items ls ! i)))
      else Inr None)"

section \<open>The storage adapter (src/utils/StorageManager.js)\<close>

record storage_manager =
  storageKey :: string
  isAvailable :: bool

text \<open>
  Every method returns what the call does (\<open>Inl\<close>: it throws, \<open>Inr\<close>: it returns) and,
  when it can write, the store as the call leaves it. A \<^verbatim>\<open>try { ... } catch\<close> block is a
  case distinction on its body; the logging calls have no effect on the results.
\<close>

definition checkStorageAvailability :: "local_storage \<Rightarrow> (js_error + bool) \<times> local_storage" where
  "checkStorageAvailability ls =
     (case setItem ''__storage_test__'' ''test'' ls of
        (Inl error, ls') \<Rightarrow> (Inr False, ls')
      | (Inr u, ls') \<Rightarrow>
          (case removeItem ''__storage_test__'' ls' of
             (Inl error, ls'') \<Rightarrow> (Inr False, ls'')
           | (Inr u', ls'') \<Rightarrow> (Inr True, ls'')))"

text \<open>The constructor; \<^verbatim>\<open>storageKey\<close> defaults to \<^verbatim>\<open>'taskManagementApp'\<close>.\<close>

definition StorageManager_new ::
  "string option \<Rightarrow> local_storage \<Rightarrow> (js_error + storage_manager) \<times> local_storage" where
  "StorageManager_new storageKey0 ls =
     (let key = (case storageKey0 of None \<Rightarrow> ''taskManagementApp'' | Some k \<Rightarrow> k) in
      case checkStorageAvailability ls of
        (Inl e, ls') \<Rightarrow> (Inl e, ls')
      | (Inr available, ls') \<Rightarrow> (Inr \<lparr> storageKey = key, isAvailable = available \<rparr>, ls'))"

definition fullKey :: "storage_manager \<Rightarrow> string \<Rightarrow> string" where
  "fullKey this key = storageKey this @ ''_'' @ key"

text \<open>\<^verbatim>\<open>setItem\<close> converts its argument to a string: \<^verbatim>\<open>undefined\<close> is stored as that word.\<close>

definition stored_text :: "string option \<Rightarrow> string" where
  "stored_text json = (case json of None \<Rightarrow> ''undefined'' | Some s \<Rightarrow> s)"

definition save ::
  "platform \<Rightarrow> storage_manager \<Rightarrow> string \<Rightarrow> jsval \<Rightarrow> local_storage
     \<Rightarrow> (js_error + bool) \<times> local_storage" where
  "save P this key data ls =
     (if \<not> isAvailable this then (Inr False, ls)
      else
        (case JSON_stringify P data of
           Inl error \<Rightarrow> (Inr False, ls)
         | Inr jsonData \<Rightarrow>
             (case setItem (fullKey this key) (stored_text jsonData) ls of
                (Inl error, ls') \<Rightarrow> (Inr False, ls')
              | (Inr u, ls') \<Rightarrow> (Inr True, ls'))))"

text \<open>
  \<^verbatim>\<open>load(key, defaultValue = null)\<close>: the parameter default replaces an argument that is
  \<^verbatim>\<open>undefined\<close> (or left out) by \<^verbatim>\<open>null\<close>.
\<close>

definition load ::
  "platform \<Rightarrow> storage_manager \<Rightarrow> string \<Rightarrow> jsval \<Rightarrow> local_storage \<Rightarrow> js_error + jsval" where
  "load P this key defaultValue0 ls =
     (let defaultValue = (if defaultValue0 = JUndefined then JNull else defaultValue0) in
      if \<not> isAvailable this then Inr defaultValue
      else
        (case getItem (fullKey this key) ls of
           Inl error \<Rightarrow> Inr defaultValue
         | Inr None \<Rightarrow> Inr defaultValue
         | Inr (Some jsonData) \<Rightarrow>
             (case JSON_parse P jsonData of
                Inl error \<Rightarrow> Inr defaultValue
              | Inr parsed \<Rightarrow> Inr parsed)))"

definition remove ::
  "storage_manager \<Rightarrow> string \<Rightarrow> local_storage \<Rightarrow> (js_error + bool) \<times> local_storage" where
  "remove this key ls =
     (if \<not> isAvailable this then (Inr False, ls)
      else
        (case removeItem (fullKey this key) ls of
           (Inl error, ls') \<Rightarrow> (Inr False, ls')
         | (Inr u, ls') \<Rightarrow> (Inr True, ls')))"

text \<open>
  The first loop of \<^verbatim>\<open>clear\<close>, from index \<open>i\<close> with the keys pushed so far. The guard
  \<^verbatim>\<open>key && key.startsWith(this.storageKey)\<close> is false on \<^verbatim>\<open>null\<close> and on the empty
  string.
\<close>

function clear_scan ::
  "storage_manager \<Rightarrow> local_storage \<Rightarrow> nat \<Rightarrow> string list \<Rightarrow> js_error + string list" where
  "clear_scan this ls i keysToRemove =
     (case storage_length ls of
        Inl e \<Rightarrow> Inl e
      | Inr n \<Rightarrow>
          if i < n then
            (case storage_key i ls of
               Inl e \<Rightarrow> Inl e
             | Inr None \<Rightarrow> clear_scan this ls (Suc i) keysToRemove
             | Inr (Some key) \<Rightarrow>
                 clear_scan this ls (Suc i)
                   (if key \<noteq> [] \<and> prefix (storageKey this) key
                    then keysToRemove @ [key] else keysToRemove))
          else Inr keysToRemove)"
  by pat_completeness auto
termination
  by (relation "measure (\<lambda>(this, ls, i, keysToRemove). length (ls_items ls) - i)")
     (auto simp: storage_length_def split: if_splits)

text \<open>\<^verbatim>\<open>keysToRemove.forEach(key => localStorage.removeItem(key))\<close>.\<close>

fun remove_each :: "string list \<Rightarrow> local_storage \<Rightarrow> (js_error + unit) \<times> local_storage" where
  "remove_each [] ls = (Inr (), ls)"
| "remove_each (key # keys) ls =
     (case removeItem key ls of
        (Inl e, ls') \<Rightarrow> (Inl e, ls')
      | (Inr u, ls') \<Rightarrow> remove_each keys ls')"

definition clear :: "storage_manager \<Rightarrow> local_storage \<Rightarrow> (js_error + bool) \<times> local_storage" where
  "clear this ls =
     (if \<not> isAvailable this then (Inr False, ls)
      else
        (case clear_scan this ls 0 [] of
           Inl error \<Rightarrow> (Inr False, ls)
         | Inr keysToRemove \<Rightarrow>
             (case remove_each keysToRemove ls of
                (Inl error, ls') \<Rightarrow> (Inr False, ls')
              | (Inr u, ls') \<Rightarrow> (Inr True, ls'))))"

text \<open>
  What \<^verbatim>\<open>getStorageInfo\<close> returns: \<^verbatim>\<open>{ available: false }\<close>, with the caught exception
  when there was one (the source reports its message), or the three counts.
\<close>

datatype storage_info =
    Info_unavailable "js_error option"
  | Info_available nat nat nat

text \<open>
  The loop of \<^verbatim>\<open>getStorageInfo\<close>, from index \<open>i\<close> with the two sums so far. Reading
  \<^verbatim>\<open>length\<close> of \<^verbatim>\<open>null\<close> throws a TypeError.
\<close>

function info_scan ::
  "storage_manager \<Rightarrow> local_storage \<Rightarrow> nat \<Rightarrow> nat \<Rightarrow> nat \<Rightarrow> js_error + nat \<times> nat" where
  "info_scan this ls i totalSize appSize =
     (case storage_length ls of
        Inl e \<Rightarrow> Inl e
      | Inr n \<Rightarrow>
          if i < n then
            (case storage_key i ls of
               Inl e \<Rightarrow> Inl e
             | Inr None \<Rightarrow> Inl TypeError
             | Inr (Some key) \<Rightarrow>
                 (case getItem key ls of
                    Inl e \<Rightarrow> Inl e
                  | Inr None \<Rightarrow> Inl TypeError
                  | Inr (Some text) \<Rightarrow>
                      info_scan this ls (Suc i)
                        (totalSize + (length key + length text))
                        (if prefix (storageKey this) key
                         then appSize + (length key + length text) else appSize)))
          else Inr (totalSize, appSize))"
  by pat_completeness auto
termination
  by (relation "measure (\<lambda>(this, ls, i, totalSize, appSize). length (ls_items ls) - i)")
     (auto simp: storage_length_def split: if_splits)

definition getStorageInfo :: "storage_manager \<Rightarrow> local_storage \<Rightarrow> js_error + storage_info" where
  "getStorageInfo this ls =
     (if \<not> isAvailable this then Inr (Info_unavailable None)
      else
        (case info_scan this ls 0 0 0 of
           Inl error \<Rightarrow> Inr (Info_unavailable (Some error))
         | Inr (totalSize, appSize) \<Rightarrow>
             (case storage_length ls of
                Inl error \<Rightarrow> Inr (Info_unavailable (Some error))
              | Inr itemCount \<Rightarrow> Inr (Info_available totalSize appSize itemCount))))"

text \<open>
  A datum is JSON-serializable (on a platform) when \<^verbatim>\<open>JSON.stringify\<close> returns a text
  for it and \<^verbatim>\<open>JSON.parse\<close> reads that text back as the same datum; equality on
  \<open>jsval\<close> is deep equality.
\<close>

definition json_serializable :: "platform \<Rightarrow> jsval \<Rightarrow> bool" where
  "json_serializable P v =
     (case JSON_stringify P v of
        Inr (Some written) \<Rightarrow> JSON_parse P written = Inr v
      | _ \<Rightarrow> False)"

section \<open>Data for the worked examples\<close>

text \<open>
  The platform's answers on the inputs the worked examples use; on these, each answer is
  what an ECMAScript engine answers (1700000000000 ms is 2023-11-14T22:13:20Z; the
  examples stringify the number 1 and parse the texts \<^verbatim>\<open>1\<close> and \<^verbatim>\<open>not json\<close>). No
  example reaches another input, where the answers below are placeholders.
\<close>

definition example_platform :: platform where
  "example_platform =
     \<lparr> Number_toString = (\<lambda>n. if n = 1700000000000 then ''1700000000000'' else []),
       Date_toISOString =
         (\<lambda>t. if t = 1700000000000 then ''2023-11-14T22:13:20.000Z''
              else if t = 1700000000001 then ''2023-11-14T22:13:20.001Z'' else []),
       Date_parse =
         map_of [ (''2023-11-14T22:13:20.000Z'', 1700000000000),
                  (''2023-11-14T22:13:20.001Z'', 1700000000001) ],
       JSON_stringify = (\<lambda>v. if v = JNum 1 then Inr (Some ''1'') else Inr None),
       JSON_parse = (\<lambda>s. if s = ''1'' then Inr (JNum 1) else Inl SyntaxError) \<rparr>"

definition example_readings :: readings where
  "example_readings =
     \<lparr> now_id = 1700000000000, random_id = ''k3j9x2m1q'',
       now_created = 1700000000000, now_updated = 1700000000001 \<rparr>"

text \<open>
  The Task that \<^verbatim>\<open>new Task('  Buy milk ', undefined, 'high')\<close> builds under
  \<open>example_readings\<close>.
\<close>

definition example_task :: task where
  "example_task =
     \<lparr> task_id = JStr ''task_1700000000000_k3j9x2m1q'',
       task_title = ''Buy milk'',
       task_description = [],
       task_priority = JStr ''high'',
       task_completed = JBool False,
       task_createdAt = Date 1700000000000,
       task_updatedAt = Date 1700000000001 \<rparr>"

text \<open>The record \<^verbatim>\<open>toJSON\<close> writes for \<open>example_task\<close>.\<close>

definition example_record :: jsval where
  "example_record =
     JObject [ (''id'', JStr ''task_1700000000000_k3j9x2m1q''),
               (''title'', JStr ''Buy milk''),
               (''description'', JStr []),
               (''priority'', JStr ''high''),
               (''completed'', JBool False),
               (''createdAt'', JStr ''2023-11-14T22:13:20.000Z''),
               (''updatedAt'', JStr ''2023-11-14T22:13:20.001Z'') ]"

text \<open>The same record with a priority outside the enum.\<close>

definition urgent_record :: jsval where
  "urgent_record =
     JObject [ (''id'', JStr ''task_1700000000000_k3j9x2m1q''),
               (''title'', JStr ''Buy milk''),
               (''description'', JStr []),
               (''priority'', JStr ''urgent''),
               (''completed'', JBool False),
               (''createdAt'', JStr ''2023-11-14T22:13:20.000Z''),
               (''updatedAt'', JStr ''2023-11-14T22:13:20.001Z'') ]"

text \<open>The same record with the two timestamps exchanged.\<close>

definition swapped_record :: jsval where
  "swapped_record =
     JObject [ (''id'', JStr ''task_1700000000000_k3j9x2m1q''),
               (''title'', JStr ''Buy milk''),
               (''description'', JStr []),
               (''priority'', JStr ''high''),
               (''completed'', JBool False),
               (''createdAt'', JStr ''2023-11-14T22:13:20.001Z''),
               (''updatedAt'', JStr ''2023-11-14T22:13:20.000Z'') ]"



text \<open>
  Stores: one that cannot be accessed, one with room for the availability probe and
  nothing more, one that the application shares with another occupant (the text under
  \<^verbatim>\<open>taskManagementApp_b\<close> is not JSON), and one with an entry under the empty key.
\<close>

definition blocked_storage :: local_storage where
  "blocked_storage =
     \<lparr> ls_items = [ (''theme'', ''dark'') ], ls_quota = 5000000, ls_denied = True \<rparr>"

definition small_storage :: local_storage where
  "small_storage = \<lparr> ls_items = [], ls_quota = 20, ls_denied = False \<rparr>"

definition shared_storage :: local_storage where
  "shared_storage =
     \<lparr> ls_items = [ (''theme'', ''dark''), (''taskManagementApp_a'', ''1''),
                    (''taskManagementApp_b'', ''not json'') ],
       ls_quota = 5000000, ls_denied = False \<rparr>"

definition unnamed_key_storage :: local_storage where
  "unnamed_key_storage =
     \<lparr> ls_items = [ ([], ''x''), (''_a'', ''1'') ], ls_quota = 5000000, ls_denied = False \<rparr>"

text \<open>
  Adapters: \<^verbatim>\<open>new StorageManager()\<close>, with either outcome of the probe, and
  \<^verbatim>\<open>new StorageManager('')\<close> over an accessible store.
\<close>

definition app_manager :: "bool \<Rightarrow> storage_manager" where
  "app_manager available = \<lparr> storageKey = ''taskManagementApp'', isAvailable = available \<rparr>"

definition catch_all_manager :: storage_manager where
  "catch_all_manager = \<lparr> storageKey = [], isAvailable = True \<rparr>"

section \<open>Basic facts\<close>

lemma and_then_Inl [simp]: "and_then (Inl e) f = Inl e"
  by (simp add: and_then_def)

lemma and_then_Inr [simp]: "and_then (Inr x) f = f x"
  by (simp add: and_then_def)

lemma and_then_eq_Inr:
  "and_then m f = Inr y \<longleftrightarrow> (\<exists>x. m = Inr x \<and> f x = Inr y)"
  by (cases m) simp_all

subsection \<open>Trimming\<close>

lemma last_dropWhile_nonempty:
  "dropWhile Q xs \<noteq> [] \<Longrightarrow> last (dropWhile Q xs) = last xs"
  by (induction xs) (auto split: if_splits)

lemma dropWhile_rev_trim: "dropWhile isWhiteSpace (rev (trim s)) = rev (trim s)"
  by (simp add: trim_def)

text \<open>A trimmed string does not start with white space.\<close>

lemma dropWhile_trim: "dropWhile isWhiteSpace (trim s) = trim s"
proof (cases "trim s")
  case Nil
  then show ?thesis by simp
next
  case (Cons c cs)
  define a where "a = dropWhile isWhiteSpace s"
  define b where "b = dropWhile isWhiteSpace (rev a)"
  have ts: "trim s = rev b" by (simp add: trim_def a_def b_def)
  with Cons have "b \<noteq> []" by auto
  then have "last b = last (rev a)"
    unfolding b_def by (rule last_dropWhile_nonempty)
  moreover from \<open>b \<noteq> []\<close> have "a \<noteq> []" unfolding b_def by auto
  ultimately have "last b = hd a" by (simp add: last_rev)
  moreover from \<open>a \<noteq> []\<close> have "\<not> isWhiteSpace (hd a)"
    unfolding a_def by (simp add: hd_dropWhile)
  moreover from \<open>b \<noteq> []\<close> have "hd (rev b) = last b" by (simp add: hd_rev)
  ultimately have "\<not> isWhiteSpace (hd (trim s))" using ts by simp
  with Cons show ?thesis by simp
qed

lemma trim_idem: "trim (trim s) = trim s"
proof -
  have "trim (trim s) = rev (dropWhile isWhiteSpace (rev (dropWhile isWhiteSpace (trim s))))"
    by (simp add: trim_def)
  also have "\<dots> = rev (dropWhile isWhiteSpace (rev (trim s)))"
    by (simp add: dropWhile_trim)
  also have "\<dots> = trim s"
    by (simp add: dropWhile_rev_trim)
  finally show ?thesis .
qed

lemma trim_Nil [simp]: "trim [] = []"
  by (simp add: trim_def)

subsection \<open>When the constructor succeeds\<close>

lemma title_missing_Inr_False:
  "title_missing title = Inr False \<longleftrightarrow> (\<exists>s. title = JStr s \<and> trim s \<noteq> [])"
  by (cases title) (auto simp: title_missing_def)

lemma title_missing_blank: "trim s = [] \<Longrightarrow> title_missing (JStr s) = Inr True"
  by (auto simp: title_missing_def)

lemma validatePriority_Inr:
  "validatePriority P p = Inr q \<longleftrightarrow> q = p \<and> p \<in> set (map JStr validPriorities)"
  by (cases "ToString P p") (auto simp: validatePriority_def)

lemma validatePriority_valid:
  "p \<in> set (map JStr validPriorities) \<Longrightarrow> validatePriority P p = Inr p"
  by (simp add: validatePriority_Inr)

lemma join_validPriorities: "join '', '' validPriorities = ''low, medium, high''"
  by (simp add: validPriorities_def)

lemma validatePriority_invalid:
  "p \<notin> set (map JStr validPriorities) \<Longrightarrow> ToString P p = Inr shown \<Longrightarrow>
   validatePriority P p =
     Inl (Error (''Invalid priority: '' @ shown @ ''. Must be one of: low, medium, high''))"
  by (simp add: validatePriority_def join_validPriorities)

lemma description_text_cases:
  "description_text d = Inr x \<Longrightarrow>
     (\<not> truthy d \<and> x = []) \<or> (\<exists>s. d = JStr s \<and> s \<noteq> [] \<and> x = trim s)"
  by (cases d) (auto simp: description_text_def split: if_splits)

lemma description_text_trimmed:
  "description_text d = Inr x \<Longrightarrow> description_text (JStr x) = Inr x"
proof -
  assume "description_text d = Inr x"
  then have "x = [] \<or> trim x = x"
    by (auto dest!: description_text_cases simp: trim_idem)
  then show ?thesis
    by (auto simp: description_text_def)
qed

lemma Task_new_Inr:
  assumes "Task_new P r title description priority = Inr t"
  shows "\<exists>s d p. title = JStr s \<and> trim s \<noteq> [] \<and> description_text description = Inr d
           \<and> p = (if priority = JUndefined then JStr ''medium'' else priority)
           \<and> p \<in> set (map JStr validPriorities)
           \<and> t = \<lparr> task_id = JStr (generateId P r), task_title = trim s,
                   task_description = d, task_priority = p,
                   task_completed = JBool False,
                   task_createdAt = Date (now_created r),
                   task_updatedAt = Date (now_updated r) \<rparr>"
proof -
  from assms obtain missing where m: "title_missing title = Inr missing"
    by (cases "title_missing title") (auto simp: Task_new_def Let_def)
  with assms have "missing = False"
    by (auto simp: Task_new_def Let_def split: if_splits)
  with m obtain s where s: "title = JStr s" "trim s \<noteq> []"
    by (auto simp: title_missing_Inr_False)
  with assms m \<open>missing = False\<close> show ?thesis
    by (auto simp: Task_new_def Let_def and_then_eq_Inr validatePriority_Inr)
qed

lemma Task_new_valid:
  assumes "trim s \<noteq> []" "description_text description = Inr d"
    and "p \<in> set (map JStr validPriorities)"
  shows "Task_new P r (JStr s) description p =
           Inr \<lparr> task_id = JStr (generateId P r), task_title = trim s,
                 task_description = d, task_priority = p,
                 task_completed = JBool False,
                 task_createdAt = Date (now_created r),
                 task_updatedAt = Date (now_updated r) \<rparr>"
proof -
  from assms(3) have "p \<noteq> JUndefined" by auto
  moreover from assms(1) have "title_missing (JStr s) = Inr False"
    by (simp add: title_missing_Inr_False)
  ultimately show ?thesis using assms
    by (simp add: Task_new_def validatePriority_valid)
qed

lemma example_task_constructed:
  "Task_new example_platform example_readings (JStr ''  Buy milk '') JUndefined (JStr ''high'')
     = Inr example_task"
  by (simp add: Task_new_def title_missing_def description_text_def validatePriority_def
      validPriorities_def generateId_def example_platform_def example_readings_def
      example_task_def trim_def isWhiteSpace_def)

section \<open>Serialization round trip\<close>

lemma fromJSON_Inr:
  assumes "fromJSON P r data = Inr t"
  shows "\<exists>title description priority t0 id' completed created createdAt updated updatedAt.
      get_prop data ''title'' = Inr title \<and> get_prop data ''description'' = Inr description
      \<and> get_prop data ''priority'' = Inr priority
      \<and> Task_new P r title description priority = Inr t0
      \<and> get_prop data ''id'' = Inr id' \<and> get_prop data ''completed'' = Inr completed
      \<and> get_prop data ''createdAt'' = Inr created \<and> new_Date P created = Inr createdAt
      \<and> get_prop data ''updatedAt'' = Inr updated \<and> new_Date P updated = Inr updatedAt
      \<and> t = t0\<lparr> task_id := id', task_completed := completed,
                 task_createdAt := createdAt, task_updatedAt := updatedAt \<rparr>"
  using assms unfolding fromJSON_def and_then_eq_Inr by blast


text \<open>
  The data model's invariant on title, description and priority: what the constructor
  establishes and every method keeps.
\<close>

lemma Task_new_fields:
  assumes "Task_new P r title description priority = Inr t"
  shows "trim (task_title t) = task_title t \<and> task_title t \<noteq> []
    \<and> description_text (JStr (task_description t)) = Inr (task_description t)
    \<and> task_priority t \<in> set (map JStr validPriorities)
    \<and> (\<exists>c. task_createdAt t = Date c) \<and> (\<exists>u. task_updatedAt t = Date u)"
proof -
  from Task_new_Inr [OF assms] obtain s d p where
    s: "trim s \<noteq> []" and d: "description_text description = Inr d"
    and p: "p \<in> set (map JStr validPriorities)"
    and t: "t = \<lparr> task_id = JStr (generateId P r), task_title = trim s,
                   task_description = d, task_priority = p,
                   task_completed = JBool False,
                   task_createdAt = Date (now_created r),
                   task_updatedAt = Date (now_updated r) \<rparr>"
    by blast
  from s p description_text_trimmed [OF d] show ?thesis
    by (simp add: t trim_idem)
qed

lemma invoke_fields:
  assumes "trim (task_title this) = task_title this \<and> task_title this \<noteq> []
    \<and> description_text (JStr (task_description this)) = Inr (task_description this)
    \<and> task_priority this \<in> set (map JStr validPriorities)"
  shows "trim (task_title (snd (invoke P now c this))) = task_title (snd (invoke P now c this))
    \<and> task_title (snd (invoke P now c this)) \<noteq> []
    \<and> description_text (JStr (task_description (snd (invoke P now c this))))
        = Inr (task_description (snd (invoke P now c this)))
    \<and> task_priority (snd (invoke P now c this)) \<in> set (map JStr validPriorities)"
proof (cases c)
  case MarkComplete
  with assms show ?thesis by (simp add: markComplete_def)
next
  case MarkIncomplete
  with assms show ?thesis by (simp add: markIncomplete_def)
next
  case (UpdateTitle newTitle)
  show ?thesis
  proof (cases "title_missing newTitle = Inr False")
    case True
    then obtain s where "newTitle = JStr s" "trim s \<noteq> []"
      by (auto simp: title_missing_Inr_False)
    with assms True UpdateTitle show ?thesis
      by (simp add: updateTitle_def trim_idem)
  next
    case False
    with assms UpdateTitle show ?thesis
      by (auto simp: updateTitle_def split: sum.splits bool.splits)
  qed
next
  case (UpdateDescription newDescription)
  show ?thesis
  proof (cases "description_text newDescription")
    case (Inl e)
    with assms UpdateDescription show ?thesis by (simp add: updateDescription_def)
  next
    case (Inr d)
    with assms UpdateDescription description_text_trimmed [OF Inr] show ?thesis
      by (simp add: updateDescription_def)
  qed
next
  case (UpdatePriority newPriority)
  show ?thesis
  proof (cases "validatePriority P newPriority")
    case (Inl e)
    with assms UpdatePriority show ?thesis by (simp add: updatePriority_def)
  next
    case (Inr p)
    then have "p \<in> set (map JStr validPriorities)"
      by (simp add: validatePriority_Inr)
    with assms UpdatePriority Inr show ?thesis by (simp add: updatePriority_def)
  qed
qed

lemma run_fields:
  "trim (task_title this) = task_title this \<and> task_title this \<noteq> []
    \<and> description_text (JStr (task_description this)) = Inr (task_description this)
    \<and> task_priority this \<in> set (map JStr validPriorities) \<Longrightarrow>
   trim (task_title (run P calls this)) = task_title (run P calls this)
    \<and> task_title (run P calls this) \<noteq> []
    \<and> description_text (JStr (task_description (run P calls this)))
        = Inr (task_description (run P calls this))
    \<and> task_priority (run P calls this) \<in> set (map JStr validPriorities)"
proof (induction calls arbitrary: this)
  case Nil
  then show ?case by simp
next
  case (Cons a calls)
  obtain now c where a: "a = (now, c)" by (cases a)
  from Cons.IH [OF invoke_fields [OF Cons.prems, of P now c]] show ?case
    by (simp add: a)
qed

lemma fromJSON_fields:
  assumes "fromJSON P r data = Inr t"
  shows "trim (task_title t) = task_title t \<and> task_title t \<noteq> []
    \<and> description_text (JStr (task_description t)) = Inr (task_description t)
    \<and> task_priority t \<in> set (map JStr validPriorities)"
proof -
  from fromJSON_Inr [OF assms] obtain title description priority t0
    where "Task_new P r title description priority = Inr t0"
      and "task_title t = task_title t0" "task_description t = task_description t0"
      "task_priority t = task_priority t0"
    by force
  with Task_new_fields [of P r title description priority t0] show ?thesis
    by simp
qed

text \<open>The round trip of any Task that satisfies the invariant.\<close>

lemma round_trip_of_fields:
  assumes fields: "trim (task_title t) = task_title t \<and> task_title t \<noteq> []
      \<and> description_text (JStr (task_description t)) = Inr (task_description t)
      \<and> task_priority t \<in> set (map JStr validPriorities)"
    and created: "reads_back P (task_createdAt t)"
    and updated: "reads_back P (task_updatedAt t)"
  shows "\<exists>stored. toJSON P t = Inr stored \<and> fromJSON P r' stored = Inr t"
proof -
  from created obtain c where c: "task_createdAt t = Date c"
    "Date_parse P (Date_toISOString P c) = Some c"
    by (cases "task_createdAt t") auto
  from updated obtain u where u: "task_updatedAt t = Date u"
    "Date_parse P (Date_toISOString P u) = Some u"
    by (cases "task_updatedAt t") auto
  from fields have title: "trim (task_title t) \<noteq> []" by simp
  have again: "Task_new P r' (JStr (task_title t)) (JStr (task_description t)) (task_priority t) =
           Inr \<lparr> task_id = JStr (generateId P r'), task_title = task_title t,
                 task_description = task_description t, task_priority = task_priority t,
                 task_completed = JBool False,
                 task_createdAt = Date (now_created r'),
                 task_updatedAt = Date (now_updated r') \<rparr>"
    using Task_new_valid [OF title, of "JStr (task_description t)" "task_description t"
        "task_priority t" P r'] fields
    by simp
  have "toJSON P t = Inr (JObject
         [ (''id'', task_id t),
           (''title'', JStr (task_title t)),
           (''description'', JStr (task_description t)),
           (''priority'', task_priority t),
           (''completed'', task_completed t),
           (''createdAt'', JStr (Date_toISOString P c)),
           (''updatedAt'', JStr (Date_toISOString P u)) ])"
    by (simp add: toJSON_def c u)
  moreover have "fromJSON P r' (JObject
         [ (''id'', task_id t),
           (''title'', JStr (task_title t)),
           (''description'', JStr (task_description t)),
           (''priority'', task_priority t),
           (''completed'', task_completed t),
           (''createdAt'', JStr (Date_toISOString P c)),
           (''updatedAt'', JStr (Date_toISOString P u)) ]) = Inr t"
    using again c u by (simp add: fromJSON_def date_of_string_def)
  ultimately show ?thesis by simp
qed

text \<open>
  Claim C1. For every Task the constructor builds from valid arguments (and every Task
  \<^verbatim>\<open>fromJSON\<close> returns), as built and after any sequence of calls of its methods (so with
  either value of \<^verbatim>\<open>completed\<close>, and any title, description, priority and \<^verbatim>\<open>updatedAt\<close>
  the methods can set), \<^verbatim>\<open>toJSON\<close> returns a record and \<^verbatim>\<open>fromJSON\<close> of that record
  returns a Task equal to the original in every property, whatever the environment
  answers during the reconstruction. The platform's part of the law is the premise:
  the Task's two timestamps are valid dates and \<^verbatim>\<open>Date.parse\<close> reads back the text
  \<^verbatim>\<open>toISOString\<close> writes for them, as ECMAScript requires of valid dates.
\<close>

theorem task_json_round_trip:
  assumes "Task_new P r title description priority = Inr t \<or> fromJSON P r data = Inr t"
    and "reads_back P (task_createdAt (run P calls t))"
    and "reads_back P (task_updatedAt (run P calls t))"
  shows "\<exists>stored. toJSON P (run P calls t) = Inr stored
           \<and> fromJSON P r' stored = Inr (run P calls t)"
proof -
  from assms(1) Task_new_fields [of P r title description priority t]
    fromJSON_fields [of P r data t]
  have "trim (task_title t) = task_title t \<and> task_title t \<noteq> []
      \<and> description_text (JStr (task_description t)) = Inr (task_description t)
      \<and> task_priority t \<in> set (map JStr validPriorities)"
    by blast
  from round_trip_of_fields [OF run_fields [OF this] assms(2) assms(3)]
  show ?thesis .
qed

theorem task_json_round_trip_witness:
  "Task_new example_platform example_readings (JStr ''  Buy milk '') JUndefined (JStr ''high'')
     = Inr example_task
   \<and> run example_platform [] example_task = example_task
   \<and> reads_back example_platform (task_createdAt example_task)
   \<and> reads_back example_platform (task_updatedAt example_task)
   \<and> toJSON example_platform example_task = Inr example_record
   \<and> fromJSON example_platform
        \<lparr> now_id = 1700000000000, random_id = ''zzzzzzzzz'',
          now_created = 1700000000001, now_updated = 1700000000001 \<rparr> example_record
      = Inr example_task
   \<and> run example_platform
        [(1700000000001, UpdateDescription (JStr '' 2 l '')), (1700000000001, MarkComplete)]
        example_task
      = example_task\<lparr> task_description := ''2 l'', task_completed := JBool True \<rparr>
   \<and> toJSON example_platform
        (example_task\<lparr> task_description := ''2 l'', task_completed := JBool True \<rparr>)
      = Inr (JObject [ (''id'', JStr ''task_1700000000000_k3j9x2m1q''),
               (''title'', JStr ''Buy milk''),
               (''description'', JStr ''2 l''),
               (''priority'', JStr ''high''),
               (''completed'', JBool True),
               (''createdAt'', JStr ''2023-11-14T22:13:20.000Z''),
               (''updatedAt'', JStr ''2023-11-14T22:13:20.001Z'') ])
   \<and> fromJSON example_platform
        \<lparr> now_id = 1700000000000, random_id = ''zzzzzzzzz'',
          now_created = 1700000000001, now_updated = 1700000000001 \<rparr>
        (JObject [ (''id'', JStr ''task_1700000000000_k3j9x2m1q''),
               (''title'', JStr ''Buy milk''),
               (''description'', JStr ''2 l''),
               (''priority'', JStr ''high''),
               (''completed'', JBool True),
               (''createdAt'', JStr ''2023-11-14T22:13:20.000Z''),
               (''updatedAt'', JStr ''2023-11-14T22:13:20.001Z'') ])
      = Inr (example_task\<lparr> task_description := ''2 l'', task_completed := JBool True \<rparr>)"
proof -
  let ?r = "\<lparr> now_id = 1700000000000, random_id = ''zzzzzzzzz'',
          now_created = 1700000000001, now_updated = 1700000000001 \<rparr>"
  let ?calls = "[(1700000000001, UpdateDescription (JStr '' 2 l '')),
          (1700000000001, MarkComplete)]"
  let ?done = "example_task\<lparr> task_description := ''2 l'', task_completed := JBool True \<rparr>"
  have dates: "reads_back example_platform (task_createdAt example_task)"
    "reads_back example_platform (task_updatedAt example_task)"
    by (simp_all add: example_task_def example_platform_def)
  have ran: "run example_platform ?calls example_task = ?done"
    by (simp add: updateDescription_def description_text_def markComplete_def
        example_task_def trim_def isWhiteSpace_def)
  have written: "toJSON example_platform example_task = Inr example_record"
    by (simp add: toJSON_def example_task_def example_record_def example_platform_def)
  have written': "toJSON example_platform ?done
      = Inr (JObject [ (''id'', JStr ''task_1700000000000_k3j9x2m1q''),
               (''title'', JStr ''Buy milk''),
               (''description'', JStr ''2 l''),
               (''priority'', JStr ''high''),
               (''completed'', JBool True),
               (''createdAt'', JStr ''2023-11-14T22:13:20.000Z''),
               (''updatedAt'', JStr ''2023-11-14T22:13:20.001Z'') ])"
    by (simp add: toJSON_def example_task_def example_platform_def)
  have dates': "reads_back example_platform (task_createdAt (run example_platform ?calls example_task))"
    "reads_back example_platform (task_updatedAt (run example_platform ?calls example_task))"
    unfolding ran by (simp_all add: example_task_def example_platform_def)
  from task_json_round_trip [where calls = "[]" and r' = ?r and data = JNull, OF disjI1,
      OF example_task_constructed] dates
  have 1: "fromJSON example_platform ?r example_record = Inr example_task"
    by (simp add: written)
  from task_json_round_trip [where r' = ?r and data = JNull, OF disjI1,
      OF example_task_constructed dates']
  have 2: "fromJSON example_platform ?r
        (JObject [ (''id'', JStr ''task_1700000000000_k3j9x2m1q''),
               (''title'', JStr ''Buy milk''),
               (''description'', JStr ''2 l''),
               (''priority'', JStr ''high''),
               (''completed'', JBool True),
               (''createdAt'', JStr ''2023-11-14T22:13:20.000Z''),
               (''updatedAt'', JStr ''2023-11-14T22:13:20.001Z'') ]) = Inr ?done"
    unfolding ran by (simp add: written')
  show ?thesis
    using example_task_constructed dates ran written written' 1 2 by simp
qed

section \<open>Validation at construction and at deserialization\<close>

lemma blank_title: "trim ''   '' = []"
  by (simp add: trim_def isWhiteSpace_def)

lemma buy_milk_title: "trim ''Buy milk'' = ''Buy milk''"
  by (simp add: trim_def isWhiteSpace_def)

lemma urgent_invalid: "JStr ''urgent'' \<notin> set (map JStr validPriorities)"
  by (simp add: validPriorities_def)


text \<open>
  Claim C2. (1) A title that is empty or only white space makes the constructor throw
  the title error. (2) With a valid title and a description that is a string or falsy, a
  priority outside the enum (and not \<^verbatim>\<open>undefined\<close>, which selects the default) makes it
  throw the error whose message shows the rejected datum and lists low, medium, high.
  (3) \<^verbatim>\<open>fromJSON\<close> throws exactly what the constructor throws on the record's title,
  description and priority, and (4) when it returns a Task, the constructor accepted
  those three and the Task has the constructor's title and priority: deserialization
  validates title and priority as construction does, no more and no less.
\<close>

theorem construction_validates:
  "(trim s = [] \<longrightarrow>
      Task_new P r (JStr s) description priority = Inl (Error ''Task title is required''))
   \<and> (trim s \<noteq> [] \<longrightarrow> description_text description = Inr d \<longrightarrow>
       priority \<noteq> JUndefined \<longrightarrow> priority \<notin> set (map JStr validPriorities) \<longrightarrow>
       ToString P priority = Inr shown \<longrightarrow>
      Task_new P r (JStr s) description priority =
        Inl (Error (''Invalid priority: '' @ shown @ ''. Must be one of: low, medium, high'')))
   \<and> (get_prop data ''title'' = Inr title' \<longrightarrow>
       get_prop data ''description'' = Inr description' \<longrightarrow>
       get_prop data ''priority'' = Inr priority' \<longrightarrow>
       Task_new P r title' description' priority' = Inl e \<longrightarrow>
      fromJSON P r data = Inl e)
   \<and> (fromJSON P r data = Inr t \<longrightarrow>
      (\<exists>title' description' priority' t0.
          get_prop data ''title'' = Inr title' \<and> get_prop data ''description'' = Inr description'
          \<and> get_prop data ''priority'' = Inr priority'
          \<and> Task_new P r title' description' priority' = Inr t0
          \<and> task_title t = task_title t0 \<and> task_priority t = task_priority t0))"
proof (intro conjI impI)
  assume "trim s = []"
  then show "Task_new P r (JStr s) description priority = Inl (Error ''Task title is required'')"
    by (simp add: Task_new_def Let_def title_missing_blank)
next
  assume "trim s \<noteq> []" and "description_text description = Inr d"
    and "priority \<noteq> JUndefined" and "priority \<notin> set (map JStr validPriorities)"
    and "ToString P priority = Inr shown"
  moreover from \<open>trim s \<noteq> []\<close> have "title_missing (JStr s) = Inr False"
    by (simp add: title_missing_Inr_False)
  ultimately show "Task_new P r (JStr s) description priority =
        Inl (Error (''Invalid priority: '' @ shown @ ''. Must be one of: low, medium, high''))"
    by (simp add: Task_new_def validatePriority_invalid)
next
  assume "get_prop data ''title'' = Inr title'"
    and "get_prop data ''description'' = Inr description'"
    and "get_prop data ''priority'' = Inr priority'"
    and "Task_new P r title' description' priority' = Inl e"
  then show "fromJSON P r data = Inl e"
    by (simp add: fromJSON_def)
next
  assume "fromJSON P r data = Inr t"
  from fromJSON_Inr [OF this]
  show "\<exists>title' description' priority' t0.
          get_prop data ''title'' = Inr title' \<and> get_prop data ''description'' = Inr description'
          \<and> get_prop data ''priority'' = Inr priority'
          \<and> Task_new P r title' description' priority' = Inr t0
          \<and> task_title t = task_title t0 \<and> task_priority t = task_priority t0"
    by force
qed

theorem construction_validates_witness:
  "trim ''   '' = []
   \<and> Task_new example_platform example_readings (JStr ''   '') (JStr ''note'') (JStr ''low'')
       = Inl (Error ''Task title is required'')
   \<and> trim ''Buy milk'' \<noteq> [] \<and> description_text (JStr ''note'') = Inr ''note''
   \<and> JStr ''urgent'' \<noteq> JUndefined \<and> JStr ''urgent'' \<notin> set (map JStr validPriorities)
   \<and> ToString example_platform (JStr ''urgent'') = Inr ''urgent''
   \<and> Task_new example_platform example_readings (JStr ''Buy milk'') (JStr ''note'') (JStr ''urgent'')
       = Inl (Error ''Invalid priority: urgent. Must be one of: low, medium, high'')
   \<and> get_prop urgent_record ''title'' = Inr (JStr ''Buy milk'')
   \<and> get_prop urgent_record ''description'' = Inr (JStr [])
   \<and> get_prop urgent_record ''priority'' = Inr (JStr ''urgent'')
   \<and> Task_new example_platform example_readings (JStr ''Buy milk'') (JStr []) (JStr ''urgent'')
       = Inl (Error ''Invalid priority: urgent. Must be one of: low, medium, high'')
   \<and> fromJSON example_platform example_readings urgent_record
       = Inl (Error ''Invalid priority: urgent. Must be one of: low, medium, high'')
   \<and> fromJSON example_platform example_readings example_record = Inr example_task
   \<and> task_title example_task = ''Buy milk'' \<and> task_priority example_task = JStr ''high''"
proof -
  have title: "trim ''Buy milk'' \<noteq> []"
    by (simp add: buy_milk_title)
  have descr: "description_text (JStr ''note'') = Inr ''note''"
    by (simp add: description_text_def trim_def isWhiteSpace_def)
  have none: "description_text (JStr []) = Inr []"
    by (simp add: description_text_def)
  have shown: "ToString example_platform (JStr ''urgent'') = Inr ''urgent''" by simp
  have fields: "get_prop urgent_record ''title'' = Inr (JStr ''Buy milk'')"
    "get_prop urgent_record ''description'' = Inr (JStr [])"
    "get_prop urgent_record ''priority'' = Inr (JStr ''urgent'')"
    by (simp_all add: urgent_record_def)
  from construction_validates [of "''   ''" example_platform example_readings "JStr ''note''"
      "JStr ''low''"] blank_title
  have 1: "Task_new example_platform example_readings (JStr ''   '') (JStr ''note'') (JStr ''low'')
       = Inl (Error ''Task title is required'')" by blast
  from construction_validates [of "''Buy milk''" example_platform example_readings
      "JStr ''note''" "JStr ''urgent''" "''note''" "''urgent''"] title descr urgent_invalid shown
  have 2: "Task_new example_platform example_readings (JStr ''Buy milk'') (JStr ''note'')
       (JStr ''urgent'')
       = Inl (Error ''Invalid priority: urgent. Must be one of: low, medium, high'')" by simp
  from construction_validates [of "''Buy milk''" example_platform example_readings "JStr []"
      "JStr ''urgent''" "[]" "''urgent''"] title none urgent_invalid shown
  have 3: "Task_new example_platform example_readings (JStr ''Buy milk'') (JStr [])
       (JStr ''urgent'')
       = Inl (Error ''Invalid priority: urgent. Must be one of: low, medium, high'')" by simp
  from construction_validates [of _ example_platform example_readings _ _ _ _ urgent_record
      "JStr ''Buy milk''" "JStr []" "JStr ''urgent''"
      "Error ''Invalid priority: urgent. Must be one of: low, medium, high''"] fields 3
  have 4: "fromJSON example_platform example_readings urgent_record
       = Inl (Error ''Invalid priority: urgent. Must be one of: low, medium, high'')" by blast
  have 5: "fromJSON example_platform example_readings example_record = Inr example_task"
    by (simp add: fromJSON_def example_record_def Task_new_def title_missing_def
        description_text_def validatePriority_def validPriorities_def generateId_def
        example_platform_def example_readings_def example_task_def trim_def isWhiteSpace_def
        date_of_string_def)
  show ?thesis
    using blank_title title descr urgent_invalid shown fields 1 2 3 4 5
    by (simp add: example_task_def)
qed

section \<open>Failed updates\<close>

text \<open>
  Claim C6. \<^verbatim>\<open>updateTitle\<close> with an argument that is empty or only white space (or falsy
  in any other way) throws the title error, and \<^verbatim>\<open>updatePriority\<close> with a datum outside
  the enum throws (for a string, the error that names it and lists the enum); in both,
  and whenever either method throws, the Task is left exactly as it was, \<^verbatim>\<open>updatedAt\<close>
  included.
\<close>

theorem failed_update_leaves_task:
  "(trim s = [] \<longrightarrow>
      updateTitle now (JStr s) this = (Inl (Error ''Task title cannot be empty''), this))
   \<and> (\<not> truthy v \<longrightarrow>
      updateTitle now v this = (Inl (Error ''Task title cannot be empty''), this))
   \<and> (p \<notin> set (map JStr validPriorities) \<longrightarrow>
      (\<exists>e. updatePriority P now p this = (Inl e, this)))
   \<and> (q \<notin> set validPriorities \<longrightarrow>
      updatePriority P now (JStr q) this =
        (Inl (Error (''Invalid priority: '' @ q @ ''. Must be one of: low, medium, high'')),
         this))
   \<and> (fst (updateTitle now v this) \<noteq> Inr () \<longrightarrow> snd (updateTitle now v this) = this)
   \<and> (fst (updatePriority P now p this) \<noteq> Inr () \<longrightarrow>
        snd (updatePriority P now p this) = this)"
proof (intro conjI impI)
  assume "trim s = []"
  then show "updateTitle now (JStr s) this = (Inl (Error ''Task title cannot be empty''), this)"
    by (simp add: updateTitle_def title_missing_blank)
next
  assume "\<not> truthy v"
  then show "updateTitle now v this = (Inl (Error ''Task title cannot be empty''), this)"
    by (simp add: updateTitle_def title_missing_def)
next
  assume "p \<notin> set (map JStr validPriorities)"
  then have "\<exists>e. validatePriority P p = Inl e"
    by (cases "validatePriority P p") (auto simp: validatePriority_Inr)
  then show "\<exists>e. updatePriority P now p this = (Inl e, this)"
    by (auto simp: updatePriority_def)
next
  assume "q \<notin> set validPriorities"
  then have "JStr q \<notin> set (map JStr validPriorities)" by auto
  from validatePriority_invalid [OF this, of P q]
  show "updatePriority P now (JStr q) this =
        (Inl (Error (''Invalid priority: '' @ q @ ''. Must be one of: low, medium, high'')),
         this)"
    by (simp add: updatePriority_def)
next
  assume "fst (updateTitle now v this) \<noteq> Inr ()"
  then show "snd (updateTitle now v this) = this"
    by (auto simp: updateTitle_def split: sum.splits bool.splits)
next
  assume "fst (updatePriority P now p this) \<noteq> Inr ()"
  then show "snd (updatePriority P now p this) = this"
    by (auto simp: updatePriority_def split: sum.splits)
qed

theorem failed_update_leaves_task_witness:
  "trim ''   '' = []
   \<and> updateTitle 1700000000005 (JStr ''   '') example_task
       = (Inl (Error ''Task title cannot be empty''), example_task)
   \<and> \<not> truthy (JStr [])
   \<and> updateTitle 1700000000005 (JStr []) example_task
       = (Inl (Error ''Task title cannot be empty''), example_task)
   \<and> JStr ''urgent'' \<notin> set (map JStr validPriorities)
   \<and> ''urgent'' \<notin> set validPriorities
   \<and> updatePriority example_platform 1700000000005 (JStr ''urgent'') example_task
       = (Inl (Error ''Invalid priority: urgent. Must be one of: low, medium, high''),
          example_task)
   \<and> fst (updateTitle 1700000000005 (JStr []) example_task) \<noteq> Inr ()
   \<and> snd (updateTitle 1700000000005 (JStr []) example_task) = example_task
   \<and> fst (updatePriority example_platform 1700000000005 (JStr ''urgent'') example_task)
       \<noteq> Inr ()
   \<and> snd (updatePriority example_platform 1700000000005 (JStr ''urgent'') example_task)
       = example_task"
proof -
  have empty: "\<not> truthy (JStr [])" by simp
  have urgent: "''urgent'' \<notin> set validPriorities"
    by (simp add: validPriorities_def)
  note inst = failed_update_leaves_task [of "''   ''" 1700000000005 example_task "JStr []"
      "JStr ''urgent''" example_platform "''urgent''"]
  from inst blank_title have 1: "updateTitle 1700000000005 (JStr ''   '') example_task
       = (Inl (Error ''Task title cannot be empty''), example_task)" by blast
  from inst empty have 2: "updateTitle 1700000000005 (JStr []) example_task
       = (Inl (Error ''Task title cannot be empty''), example_task)" by blast
  from inst urgent
  have 3: "updatePriority example_platform 1700000000005 (JStr ''urgent'') example_task
       = (Inl (Error ''Invalid priority: urgent. Must be one of: low, medium, high''),
          example_task)" by simp
  show ?thesis
    using blank_title empty urgent urgent_invalid 1 2 3 by simp
qed

section \<open>Marking complete and incomplete\<close>

text \<open>
  The clock can advance between two calls of \<^verbatim>\<open>markComplete\<close>: the second call then
  changes \<^verbatim>\<open>updatedAt\<close> again, and the Task after two calls is not the Task after one.
\<close>

theorem mark_twice_counterexample:
  "snd (markComplete 1700000000003 (snd (markComplete 1700000000002 example_task)))
     \<noteq> snd (markComplete 1700000000002 example_task)"
  by (simp add: markComplete_def example_task_def)

text \<open>
  Claim C7, amended. \<^verbatim>\<open>markComplete\<close> and \<^verbatim>\<open>markIncomplete\<close> never throw; each sets
  \<^verbatim>\<open>completed\<close>, sets \<^verbatim>\<open>updatedAt\<close> to the time of the call and changes nothing else. A
  second call in succession changes \<^verbatim>\<open>updatedAt\<close> only (to the time of that call), so
  the methods are idempotent on every other property, and idempotent on the whole Task
  when both calls read the same time.
\<close>

theorem mark_idempotent_up_to_updatedAt:
  "fst (markComplete now this) = Inr ()
   \<and> snd (markComplete now this)
       = this\<lparr> task_completed := JBool True, task_updatedAt := Date now \<rparr>
   \<and> snd (markComplete now' (snd (markComplete now this)))
       = (snd (markComplete now this))\<lparr> task_updatedAt := Date now' \<rparr>
   \<and> snd (markComplete now (snd (markComplete now this))) = snd (markComplete now this)
   \<and> fst (markIncomplete now this) = Inr ()
   \<and> snd (markIncomplete now this)
       = this\<lparr> task_completed := JBool False, task_updatedAt := Date now \<rparr>
   \<and> snd (markIncomplete now' (snd (markIncomplete now this)))
       = (snd (markIncomplete now this))\<lparr> task_updatedAt := Date now' \<rparr>
   \<and> snd (markIncomplete now (snd (markIncomplete now this))) = snd (markIncomplete now this)"
  by (simp add: markComplete_def markIncomplete_def)

section \<open>What deserialization does not check\<close>

lemma example_record_restored:
  "fromJSON example_platform example_readings example_record = Inr example_task"
  by (simp add: fromJSON_def example_record_def Task_new_def title_missing_def
      description_text_def validatePriority_def validPriorities_def generateId_def
      example_platform_def example_readings_def example_task_def trim_def isWhiteSpace_def
      date_of_string_def)



section \<open>Order of the two timestamps\<close>

lemma date_le_trans: "date_le a b \<Longrightarrow> date_le b c \<Longrightarrow> date_le a c"
  by (cases a; cases b; cases c) auto

lemma clock_runs_forward_earlier:
  "date_le d d' \<Longrightarrow> clock_runs_forward d' calls \<Longrightarrow> clock_runs_forward d calls"
  by (cases calls) (auto intro: date_le_trans)

text \<open>A call leaves the Task alone or sets \<^verbatim>\<open>updatedAt\<close> to its time; never \<^verbatim>\<open>createdAt\<close>.\<close>

lemma invoke_timestamps:
  "snd (invoke P now c this) = this
   \<or> (task_createdAt (snd (invoke P now c this)) = task_createdAt this
      \<and> task_updatedAt (snd (invoke P now c this)) = Date now)"
  by (cases c)
     (auto simp: markComplete_def markIncomplete_def updateTitle_def updateDescription_def
        updatePriority_def split: sum.splits bool.splits)

lemma run_keeps_order:
  "date_le (task_createdAt this) (task_updatedAt this) \<Longrightarrow>
   clock_runs_forward (task_updatedAt this) calls \<Longrightarrow>
   date_le (task_createdAt (run P calls this)) (task_updatedAt (run P calls this))"
proof (induction calls arbitrary: this)
  case Nil
  then show ?case by simp
next
  case (Cons a calls)
  obtain now c where a: "a = (now, c)" by (cases a)
  let ?next = "snd (invoke P now c this)"
  from Cons.prems(2) a have le: "date_le (task_updatedAt this) (Date now)"
    and rest: "clock_runs_forward (Date now) calls" by simp_all
  from invoke_timestamps [of P now c this]
  have "date_le (task_createdAt ?next) (task_updatedAt ?next)
        \<and> clock_runs_forward (task_updatedAt ?next) calls"
  proof
    assume "?next = this"
    with Cons.prems(1) le rest show ?thesis
      by (auto intro: clock_runs_forward_earlier)
  next
    assume "task_createdAt ?next = task_createdAt this \<and> task_updatedAt ?next = Date now"
    with Cons.prems(1) le rest show ?thesis
      by (auto intro: date_le_trans)
  qed
  with Cons.IH [of ?next] show ?case by (simp add: a)
qed

text \<open>
  \<^verbatim>\<open>fromJSON\<close> restores the two timestamps of a record without comparing them: from a
  record whose \<^verbatim>\<open>createdAt\<close> is later than its \<^verbatim>\<open>updatedAt\<close> it returns a Task with
  \<^verbatim>\<open>updatedAt\<close> before \<^verbatim>\<open>createdAt\<close>.
\<close>

theorem restored_timestamps_counterexample:
  "fromJSON example_platform example_readings swapped_record
     = Inr (example_task\<lparr> task_createdAt := Date 1700000000001,
                          task_updatedAt := Date 1700000000000 \<rparr>)
   \<and> \<not> date_le (Date 1700000000001) (Date 1700000000000)"
  by (simp add: fromJSON_def swapped_record_def Task_new_def title_missing_def
      description_text_def validatePriority_def validPriorities_def generateId_def
      example_platform_def example_readings_def example_task_def trim_def isWhiteSpace_def
      date_of_string_def)

text \<open>
  Claim C5, amended. A Task built by the constructor has \<^verbatim>\<open>createdAt\<close> at most
  \<^verbatim>\<open>updatedAt\<close>, and keeps that through every sequence of calls of its methods, failed
  ones included, as long as the clock does not run backwards (first conjunct).
  \<^verbatim>\<open>fromJSON\<close> restores the record's two timestamps as \<^verbatim>\<open>new Date\<close> reads them, unchecked
  (second conjunct); a restored Task whose timestamps are in order keeps them in order
  through later calls under the same condition on the clock (third conjunct).
\<close>

theorem timestamps_ordered:
  "(Task_new P r title description priority = Inr t \<longrightarrow>
      now_created r \<le> now_updated r \<longrightarrow>
      clock_runs_forward (Date (now_updated r)) calls \<longrightarrow>
      date_le (task_createdAt (run P calls t)) (task_updatedAt (run P calls t)))
   \<and> (fromJSON P r data = Inr t' \<longrightarrow>
      (\<exists>created updated.
          get_prop data ''createdAt'' = Inr created
          \<and> new_Date P created = Inr (task_createdAt t')
          \<and> get_prop data ''updatedAt'' = Inr updated
          \<and> new_Date P updated = Inr (task_updatedAt t')))
   \<and> (fromJSON P r data = Inr t' \<longrightarrow>
      date_le (task_createdAt t') (task_updatedAt t') \<longrightarrow>
      clock_runs_forward (task_updatedAt t') calls \<longrightarrow>
      date_le (task_createdAt (run P calls t')) (task_updatedAt (run P calls t')))"
proof (intro conjI impI)
  assume "Task_new P r title description priority = Inr t"
    and "now_created r \<le> now_updated r"
    and "clock_runs_forward (Date (now_updated r)) calls"
  with Task_new_Inr [of P r title description priority t]
  show "date_le (task_createdAt (run P calls t)) (task_updatedAt (run P calls t))"
    by (intro run_keeps_order) auto
next
  assume "fromJSON P r data = Inr t'"
  from fromJSON_Inr [OF this]
  show "\<exists>created updated.
          get_prop data ''createdAt'' = Inr created
          \<and> new_Date P created = Inr (task_createdAt t')
          \<and> get_prop data ''updatedAt'' = Inr updated
          \<and> new_Date P updated = Inr (task_updatedAt t')"
    by force
next
  assume "date_le (task_createdAt t') (task_updatedAt t')"
    and "clock_runs_forward (task_updatedAt t') calls"
  then show "date_le (task_createdAt (run P calls t')) (task_updatedAt (run P calls t'))"
    by (rule run_keeps_order)
qed

theorem timestamps_ordered_witness:
  "Task_new example_platform example_readings (JStr ''  Buy milk '') JUndefined (JStr ''high'')
     = Inr example_task
   \<and> now_created example_readings \<le> now_updated example_readings
   \<and> clock_runs_forward (Date (now_updated example_readings))
       [(1700000000002, MarkComplete), (1700000000002, UpdateTitle (JStr [])),
        (1700000000009, UpdatePriority (JStr ''low''))]
   \<and> run example_platform
       [(1700000000002, MarkComplete), (1700000000002, UpdateTitle (JStr [])),
        (1700000000009, UpdatePriority (JStr ''low''))] example_task
     = example_task\<lparr> task_priority := JStr ''low'', task_completed := JBool True,
                      task_updatedAt := Date 1700000000009 \<rparr>
   \<and> date_le (Date 1700000000000) (Date 1700000000009)
   \<and> fromJSON example_platform example_readings example_record = Inr example_task
   \<and> date_le (task_createdAt example_task) (task_updatedAt example_task)
   \<and> clock_runs_forward (task_updatedAt example_task) [(1700000000004, MarkIncomplete)]
   \<and> date_le (task_createdAt (run example_platform [(1700000000004, MarkIncomplete)] example_task))
       (task_updatedAt (run example_platform [(1700000000004, MarkIncomplete)] example_task))"
proof -
  let ?calls = "[(1700000000002, MarkComplete), (1700000000002, UpdateTitle (JStr [])),
        (1700000000009, UpdatePriority (JStr ''low''))]"
  have clock: "now_created example_readings \<le> now_updated example_readings"
    "clock_runs_forward (Date (now_updated example_readings)) ?calls"
    by (simp_all add: example_readings_def)
  have ran: "run example_platform ?calls example_task
     = example_task\<lparr> task_priority := JStr ''low'', task_completed := JBool True,
                      task_updatedAt := Date 1700000000009 \<rparr>"
    by (simp add: markComplete_def updateTitle_def title_missing_def updatePriority_def
        validatePriority_def validPriorities_def example_task_def)
  have restored: "date_le (task_createdAt example_task) (task_updatedAt example_task)"
    "clock_runs_forward (task_updatedAt example_task) [(1700000000004, MarkIncomplete)]"
    by (simp_all add: example_task_def)
  from timestamps_ordered [THEN conjunct1, rule_format, OF example_task_constructed clock]
  have 1: "date_le (task_createdAt (run example_platform ?calls example_task))
             (task_updatedAt (run example_platform ?calls example_task))" .
  from timestamps_ordered [THEN conjunct2, THEN conjunct2, rule_format,
      OF example_record_restored restored]
  have 2: "date_le
       (task_createdAt (run example_platform [(1700000000004, MarkIncomplete)] example_task))
       (task_updatedAt (run example_platform [(1700000000004, MarkIncomplete)] example_task))" .
  from 1 have 3: "date_le (Date 1700000000000) (Date 1700000000009)"
    unfolding ran by (simp add: example_task_def)
  show ?thesis
    using example_task_constructed clock ran restored example_record_restored 2 3 by simp
qed

section \<open>The two loops of clear\<close>

declare clear_scan.simps [simp del]
declare info_scan.simps [simp del]

lemma clear_scan_denied: "ls_denied ls \<Longrightarrow> clear_scan this ls i keys = Inl SecurityError"
  by (subst clear_scan.simps) (simp add: storage_length_def)

lemma clear_scan_collects:
  "\<not> ls_denied ls \<Longrightarrow>
   clear_scan this ls i keys =
     Inr (keys @ filter (\<lambda>k. k \<noteq> [] \<and> prefix (storageKey this) k)
                   (drop i (map fst (ls_items ls))))"
proof (induction this ls i keys rule: clear_scan.induct)
  case (1 this ls i keysToRemove)
  show ?case
  proof (cases "i < length (ls_items ls)")
    case False
    with "1.prems" show ?thesis
      by (subst clear_scan.simps) (simp add: storage_length_def)
  next
    case True
    let ?key = "fst (ls_items ls ! i)"
    from True have d: "drop i (map fst (ls_items ls)) = ?key # drop (Suc i) (map fst (ls_items ls))"
      using Cons_nth_drop_Suc [of i "map fst (ls_items ls)"] by simp
    from True "1.prems" have len: "storage_length ls = Inr (length (ls_items ls))"
      and key: "storage_key i ls = Inr (Some ?key)"
      by (simp_all add: storage_length_def storage_key_def)
    from "1.IH"(2) [OF len True key refl "1.prems"] True "1.prems" show ?thesis
      by (subst clear_scan.simps) (simp add: len key d)
  qed
qed

lemma remove_each_denied:
  "ls_denied ls \<Longrightarrow> keys \<noteq> [] \<Longrightarrow> remove_each keys ls = (Inl SecurityError, ls)"
  by (cases keys) (simp_all add: removeItem_def)

lemma remove_each_deletes:
  "\<not> ls_denied ls \<Longrightarrow>
   remove_each keys ls =
     (Inr (), ls\<lparr> ls_items := filter (\<lambda>(k, v). k \<notin> set keys) (ls_items ls) \<rparr>)"
proof (induction keys arbitrary: ls)
  case Nil
  then show ?case by simp
next
  case (Cons key keys)
  have "filter (\<lambda>(k, v). k \<notin> set keys) (AList.delete key (ls_items ls))
        = filter (\<lambda>(k, v). k \<notin> set (key # keys)) (ls_items ls)"
    by (auto simp: AList.delete_eq intro: filter_cong)
  with Cons.prems Cons.IH [of "ls\<lparr> ls_items := AList.delete key (ls_items ls) \<rparr>"]
  show ?case by (simp add: removeItem_def)
qed

lemma clear_available:
  assumes "isAvailable this" "\<not> ls_denied ls"
  shows "clear this ls =
     (Inr True, ls\<lparr> ls_items :=
        filter (\<lambda>(k, v). \<not> (k \<noteq> [] \<and> prefix (storageKey this) k)) (ls_items ls) \<rparr>)"
proof -
  let ?keys = "filter (\<lambda>k. k \<noteq> [] \<and> prefix (storageKey this) k) (map fst (ls_items ls))"
  have "filter (\<lambda>(k, v). k \<notin> set ?keys) (ls_items ls)
        = filter (\<lambda>(k, v). \<not> (k \<noteq> [] \<and> prefix (storageKey this) k)) (ls_items ls)"
    by (rule filter_cong) (auto simp: image_iff)
  with assms show ?thesis
    by (simp add: clear_def clear_scan_collects remove_each_deletes)
qed

section \<open>The adapter without a usable store\<close>

text \<open>
  Claim C3. When the probe has recorded the store unavailable, no method throws and none
  touches the store: \<^verbatim>\<open>save\<close> returns false, \<^verbatim>\<open>load\<close> returns the default it is given
  (\<^verbatim>\<open>null\<close>, the parameter's own default, when it is given \<^verbatim>\<open>undefined\<close> or none),
  \<^verbatim>\<open>remove\<close> and \<^verbatim>\<open>clear\<close> return false, and \<^verbatim>\<open>getStorageInfo\<close> returns
  \<^verbatim>\<open>{ available: false }\<close>.
\<close>

theorem unavailable_fails_soft:
  assumes "\<not> isAvailable this"
  shows "save P this key data ls = (Inr False, ls)
    \<and> load P this key defaultValue ls
        = Inr (if defaultValue = JUndefined then JNull else defaultValue)
    \<and> remove this key ls = (Inr False, ls)
    \<and> clear this ls = (Inr False, ls)
    \<and> getStorageInfo this ls = Inr (Info_unavailable None)"
  using assms by (simp add: save_def load_def remove_def clear_def getStorageInfo_def)

lemma blocked_manager:
  "StorageManager_new None blocked_storage = (Inr (app_manager False), blocked_storage)"
  by (simp add: StorageManager_new_def checkStorageAvailability_def setItem_def
      blocked_storage_def app_manager_def)

theorem unavailable_fails_soft_witness:
  "StorageManager_new None blocked_storage = (Inr (app_manager False), blocked_storage)
   \<and> \<not> isAvailable (app_manager False)
   \<and> save example_platform (app_manager False) ''x'' (JNum 1) blocked_storage
       = (Inr False, blocked_storage)
   \<and> load example_platform (app_manager False) ''x'' (JNum 42) blocked_storage = Inr (JNum 42)
   \<and> load example_platform (app_manager False) ''x'' JUndefined blocked_storage = Inr JNull
   \<and> remove (app_manager False) ''x'' blocked_storage = (Inr False, blocked_storage)
   \<and> clear (app_manager False) blocked_storage = (Inr False, blocked_storage)
   \<and> getStorageInfo (app_manager False) blocked_storage = Inr (Info_unavailable None)"
proof -
  have off: "\<not> isAvailable (app_manager False)"
    by (simp add: app_manager_def)
  from unavailable_fails_soft [OF off, of example_platform "''x''" "JNum 1" blocked_storage
      "JNum 42"]
    unavailable_fails_soft [OF off, of example_platform "''x''" "JNum 1" blocked_storage
      JUndefined]
  show ?thesis using off blocked_manager by simp
qed

section \<open>Removing a key\<close>

text \<open>
  Claim C10. With the store recorded available and a delete that does not throw,
  \<^verbatim>\<open>remove\<close> returns true and the store has lost every entry under the effective key;
  when there was none, it returns true all the same and the store is as before.
\<close>

theorem remove_true_without_entry:
  assumes "isAvailable this" and "fst (removeItem (fullKey this key) ls) = Inr ()"
  shows "remove this key ls =
           (Inr True, ls\<lparr> ls_items := AList.delete (fullKey this key) (ls_items ls) \<rparr>)
    \<and> (map_of (ls_items ls) (fullKey this key) = None \<longrightarrow> remove this key ls = (Inr True, ls))"
proof -
  from assms(2) have open_store: "\<not> ls_denied ls"
    by (auto simp: removeItem_def split: if_splits)
  with assms(1) have 1: "remove this key ls =
           (Inr True, ls\<lparr> ls_items := AList.delete (fullKey this key) (ls_items ls) \<rparr>)"
    by (simp add: remove_def removeItem_def)
  have "map_of (ls_items ls) (fullKey this key) = None \<Longrightarrow>
        AList.delete (fullKey this key) (ls_items ls) = ls_items ls"
    by (simp add: map_of_eq_None_iff)
  with 1 show ?thesis by simp
qed

theorem remove_true_without_entry_witness:
  "isAvailable (app_manager True)
   \<and> fst (removeItem (fullKey (app_manager True) ''missing'') shared_storage) = Inr ()
   \<and> map_of (ls_items shared_storage) (fullKey (app_manager True) ''missing'') = None
   \<and> remove (app_manager True) ''missing'' shared_storage = (Inr True, shared_storage)"
proof -
  have on: "isAvailable (app_manager True)"
    by (simp add: app_manager_def)
  have deleted: "fst (removeItem (fullKey (app_manager True) ''missing'') shared_storage) = Inr ()"
    by (simp add: removeItem_def shared_storage_def)
  have absent: "map_of (ls_items shared_storage) (fullKey (app_manager True) ''missing'') = None"
    by (simp add: shared_storage_def fullKey_def app_manager_def)
  from remove_true_without_entry [OF on deleted, THEN conjunct2, rule_format, OF absent]
  show ?thesis using on deleted absent by simp
qed

section \<open>Clearing the namespace\<close>

lemma catch_all_constructed:
  "StorageManager_new (Some []) unnamed_key_storage = (Inr catch_all_manager, unnamed_key_storage)"
  by (simp add: StorageManager_new_def checkStorageAvailability_def setItem_def removeItem_def
      stored_size_def unnamed_key_storage_def catch_all_manager_def)

text \<open>
  What \<^verbatim>\<open>clear\<close> does. It returns false and leaves the store alone when the store is
  recorded unavailable or cannot be accessed. Otherwise it returns true and deletes the
  entries whose key is not empty and starts with the prefix, keeping every other entry in
  place and in order; when the prefix itself is not empty, these are exactly the entries
  whose key starts with the prefix.
\<close>

lemma clear_effect:
  "(\<not> isAvailable this \<longrightarrow> clear this ls = (Inr False, ls))
   \<and> (isAvailable this \<longrightarrow> ls_denied ls \<longrightarrow> clear this ls = (Inr False, ls))
   \<and> (isAvailable this \<longrightarrow> \<not> ls_denied ls \<longrightarrow>
        clear this ls =
          (Inr True, ls\<lparr> ls_items :=
             filter (\<lambda>(k, v). \<not> (k \<noteq> [] \<and> prefix (storageKey this) k)) (ls_items ls) \<rparr>))
   \<and> (isAvailable this \<longrightarrow> \<not> ls_denied ls \<longrightarrow> storageKey this \<noteq> [] \<longrightarrow>
        clear this ls =
          (Inr True, ls\<lparr> ls_items :=
             filter (\<lambda>(k, v). \<not> prefix (storageKey this) k) (ls_items ls) \<rparr>))"
proof (intro conjI impI)
  assume "\<not> isAvailable this"
  then show "clear this ls = (Inr False, ls)"
    by (simp add: clear_def)
next
  assume "isAvailable this" "ls_denied ls"
  then show "clear this ls = (Inr False, ls)"
    by (simp add: clear_def clear_scan_denied)
next
  assume "isAvailable this" "\<not> ls_denied ls"
  then show "clear this ls =
          (Inr True, ls\<lparr> ls_items :=
             filter (\<lambda>(k, v). \<not> (k \<noteq> [] \<and> prefix (storageKey this) k)) (ls_items ls) \<rparr>)"
    by (rule clear_available)
next
  assume a: "isAvailable this" "\<not> ls_denied ls" and named: "storageKey this \<noteq> []"
  have "filter (\<lambda>(k, v). \<not> (k \<noteq> [] \<and> prefix (storageKey this) k)) (ls_items ls)
        = filter (\<lambda>(k, v). \<not> prefix (storageKey this) k) (ls_items ls)"
    using named by (intro filter_cong) auto
  with clear_available [OF a] show "clear this ls =
          (Inr True, ls\<lparr> ls_items :=
             filter (\<lambda>(k, v). \<not> prefix (storageKey this) k) (ls_items ls) \<rparr>)"
    by simp
qed

text \<open>The namespace of the default adapter in a shared store: both of its entries go.\<close>

lemma clear_shared_storage:
  "clear (app_manager True) shared_storage
     = (Inr True, shared_storage\<lparr> ls_items := [ (''theme'', ''dark'') ] \<rparr>)"
  by (simp add: clear_available app_manager_def shared_storage_def)

text \<open>
  Claim C8: the code falls short of it. The claim is what the source's own comment says
  (\<^verbatim>\<open>Remove all keys that start with our storage key\<close>), but the guard
  \<^verbatim>\<open>key && key.startsWith(this.storageKey)\<close>, a null check, is also false on the empty
  string. With the adapter \<^verbatim>\<open>new StorageManager('')\<close> over a store that holds an entry
  under the empty key, that key starts with the prefix, \<^verbatim>\<open>getStorageInfo\<close> (which tests
  \<^verbatim>\<open>startsWith\<close> without the guard) counts the entry as the adapter's, and \<^verbatim>\<open>clear\<close>
  returns true and leaves the entry in the store.
\<close>

theorem clear_leaves_unnamed_key:
  "StorageManager_new (Some []) unnamed_key_storage = (Inr catch_all_manager, unnamed_key_storage)
   \<and> prefix (storageKey catch_all_manager) []
   \<and> getItem [] unnamed_key_storage = Inr (Some ''x'')
   \<and> getStorageInfo catch_all_manager unnamed_key_storage = Inr (Info_available 4 4 2)
   \<and> clear catch_all_manager unnamed_key_storage
       = (Inr True, unnamed_key_storage\<lparr> ls_items := [ ([], ''x'') ] \<rparr>)
   \<and> getItem [] (snd (clear catch_all_manager unnamed_key_storage)) = Inr (Some ''x'')"
proof -
  have cleared: "clear catch_all_manager unnamed_key_storage
       = (Inr True, unnamed_key_storage\<lparr> ls_items := [ ([], ''x'') ] \<rparr>)"
    by (simp add: clear_available catch_all_manager_def unnamed_key_storage_def)
  have counted: "getStorageInfo catch_all_manager unnamed_key_storage
       = Inr (Info_available 4 4 2)"
    by (simp add: getStorageInfo_def info_scan.simps storage_length_def storage_key_def
        getItem_def catch_all_manager_def unnamed_key_storage_def)
  from cleared counted show ?thesis
    using catch_all_constructed
    by (simp add: getItem_def unnamed_key_storage_def catch_all_manager_def)
qed

section \<open>Saving and loading\<close>

lemma small_manager:
  "StorageManager_new None small_storage = (Inr (app_manager True), small_storage)"
  by (simp add: StorageManager_new_def checkStorageAvailability_def setItem_def removeItem_def
      stored_size_def small_storage_def app_manager_def)

lemma one_serializable: "json_serializable example_platform (JNum 1)"
  by (simp add: json_serializable_def example_platform_def)

text \<open>
  A store that the probe finds available can still refuse a write: here the quota leaves
  room for the probe's entry but not for \<^verbatim>\<open>taskManagementApp_tasks\<close>. \<^verbatim>\<open>save\<close> returns
  false, and the \<^verbatim>\<open>load\<close> that follows returns the default, not the saved number.
\<close>

theorem save_over_quota_counterexample:
  "StorageManager_new None small_storage = (Inr (app_manager True), small_storage)
   \<and> json_serializable example_platform (JNum 1)
   \<and> save example_platform (app_manager True) ''tasks'' (JNum 1) small_storage
       = (Inr False, small_storage)
   \<and> load example_platform (app_manager True) ''tasks'' (JStr ''D'') small_storage
       = Inr (JStr ''D'')"
  using small_manager one_serializable
  by (simp add: save_def load_def setItem_def getItem_def fullKey_def stored_text_def
      stored_size_def small_storage_def app_manager_def example_platform_def)

text \<open>
  Claim C4, amended. With the store recorded available and a JSON-serializable datum whose
  text the store takes (the store can be accessed and its entries, with the text under
  the effective key, fit the quota), \<^verbatim>\<open>save\<close> writes the text and returns true, and a
  \<^verbatim>\<open>load\<close> of the same key that follows returns the datum (first conjunct); when the
  store does not take the text, \<^verbatim>\<open>save\<close> returns false and leaves the store as it was
  (second). \<^verbatim>\<open>load\<close> of a key with no entry returns the default it is given, \<^verbatim>\<open>null\<close>
  when it is given \<^verbatim>\<open>undefined\<close> or none (third); so does \<^verbatim>\<open>load\<close> of an entry whose text
  \<^verbatim>\<open>JSON.parse\<close> rejects (fourth); and \<^verbatim>\<open>load\<close> never throws (fifth).
\<close>

theorem save_then_load:
  "(isAvailable this \<longrightarrow> json_serializable P v \<longrightarrow> JSON_stringify P v = Inr (Some written) \<longrightarrow>
      \<not> ls_denied ls \<longrightarrow>
      stored_size (AList.update (fullKey this key) written (ls_items ls)) \<le> ls_quota ls \<longrightarrow>
      save P this key v ls
        = (Inr True,
           ls\<lparr> ls_items := AList.update (fullKey this key) written (ls_items ls) \<rparr>)
      \<and> load P this key defaultValue (snd (save P this key v ls)) = Inr v)
   \<and> (isAvailable this \<longrightarrow> JSON_stringify P v = Inr (Some written) \<longrightarrow>
      ls_denied ls
        \<or> ls_quota ls < stored_size (AList.update (fullKey this key) written (ls_items ls)) \<longrightarrow>
      save P this key v ls = (Inr False, ls))
   \<and> (map_of (ls_items ls) (fullKey this key) = None \<longrightarrow>
      load P this key defaultValue ls
        = Inr (if defaultValue = JUndefined then JNull else defaultValue))
   \<and> (map_of (ls_items ls) (fullKey this key) = Some stored \<longrightarrow> JSON_parse P stored = Inl e \<longrightarrow>
      load P this key defaultValue ls
        = Inr (if defaultValue = JUndefined then JNull else defaultValue))
   \<and> (\<exists>loaded. load P this key defaultValue ls = Inr loaded)"
proof (intro conjI impI)
  assume on: "isAvailable this" and v: "json_serializable P v"
    and w: "JSON_stringify P v = Inr (Some written)"
    and room: "\<not> ls_denied ls"
      "stored_size (AList.update (fullKey this key) written (ls_items ls)) \<le> ls_quota ls"
  from v w have parsed: "JSON_parse P written = Inr v"
    by (simp add: json_serializable_def)
  from on w room show saved: "save P this key v ls
        = (Inr True,
           ls\<lparr> ls_items := AList.update (fullKey this key) written (ls_items ls) \<rparr>)"
    by (simp add: save_def setItem_def stored_text_def)
  from on room(1) parsed
  show "load P this key defaultValue (snd (save P this key v ls)) = Inr v"
    unfolding saved by (simp add: load_def getItem_def AList.update_conv')
next
  assume "isAvailable this" "JSON_stringify P v = Inr (Some written)"
    "ls_denied ls
      \<or> ls_quota ls < stored_size (AList.update (fullKey this key) written (ls_items ls))"
  then show "save P this key v ls = (Inr False, ls)"
    by (auto simp: save_def setItem_def stored_text_def)
next
  assume "map_of (ls_items ls) (fullKey this key) = None"
  then show "load P this key defaultValue ls
        = Inr (if defaultValue = JUndefined then JNull else defaultValue)"
    by (simp add: load_def getItem_def)
next
  assume "map_of (ls_items ls) (fullKey this key) = Some stored" "JSON_parse P stored = Inl e"
  then show "load P this key defaultValue ls
        = Inr (if defaultValue = JUndefined then JNull else defaultValue)"
    by (simp add: load_def getItem_def)
next
  show "\<exists>loaded. load P this key defaultValue ls = Inr loaded"
    by (simp add: load_def Let_def split: sum.splits option.splits)
qed

theorem save_then_load_witness:
  "isAvailable (app_manager True) \<and> json_serializable example_platform (JNum 1)
   \<and> JSON_stringify example_platform (JNum 1) = Inr (Some ''1'')
   \<and> \<not> ls_denied shared_storage
   \<and> stored_size (AList.update (fullKey (app_manager True) ''n'') ''1''
         (ls_items shared_storage)) \<le> ls_quota shared_storage
   \<and> save example_platform (app_manager True) ''n'' (JNum 1) shared_storage
       = (Inr True, shared_storage\<lparr> ls_items :=
            ls_items shared_storage @ [ (''taskManagementApp_n'', ''1'') ] \<rparr>)
   \<and> load example_platform (app_manager True) ''n'' JNull
        (snd (save example_platform (app_manager True) ''n'' (JNum 1) shared_storage))
       = Inr (JNum 1)
   \<and> ls_quota small_storage
       < stored_size (AList.update (fullKey (app_manager True) ''tasks'') ''1''
           (ls_items small_storage))
   \<and> save example_platform (app_manager True) ''tasks'' (JNum 1) small_storage
       = (Inr False, small_storage)
   \<and> map_of (ls_items shared_storage) (fullKey (app_manager True) ''missing'') = None
   \<and> load example_platform (app_manager True) ''missing'' (JStr ''D'') shared_storage
       = Inr (JStr ''D'')
   \<and> load example_platform (app_manager True) ''missing'' JUndefined shared_storage
       = Inr JNull
   \<and> map_of (ls_items shared_storage) (fullKey (app_manager True) ''b'') = Some ''not json''
   \<and> JSON_parse example_platform ''not json'' = Inl SyntaxError
   \<and> load example_platform (app_manager True) ''b'' (JStr ''D'') shared_storage
       = Inr (JStr ''D'')"
proof -
  have on: "isAvailable (app_manager True)"
    by (simp add: app_manager_def)
  have w: "JSON_stringify example_platform (JNum 1) = Inr (Some ''1'')"
    by (simp add: example_platform_def)
  have room: "\<not> ls_denied shared_storage"
    "stored_size (AList.update (fullKey (app_manager True) ''n'') ''1''
         (ls_items shared_storage)) \<le> ls_quota shared_storage"
    by (simp_all add: shared_storage_def fullKey_def app_manager_def stored_size_def)
  have over: "ls_denied small_storage \<or> ls_quota small_storage
       < stored_size (AList.update (fullKey (app_manager True) ''tasks'') ''1''
           (ls_items small_storage))"
    by (simp add: small_storage_def fullKey_def app_manager_def stored_size_def)
  have absent: "map_of (ls_items shared_storage) (fullKey (app_manager True) ''missing'') = None"
    by (simp add: shared_storage_def fullKey_def app_manager_def)
  have present: "map_of (ls_items shared_storage) (fullKey (app_manager True) ''b'')
       = Some ''not json''"
    by (simp add: shared_storage_def fullKey_def app_manager_def)
  have garbled: "JSON_parse example_platform ''not json'' = Inl SyntaxError"
    by (simp add: example_platform_def)
  note c = save_then_load
  note saved = c [where defaultValue = JNull, THEN conjunct1, rule_format,
      OF on one_serializable w room]
  have appended: "AList.update (fullKey (app_manager True) ''n'') ''1'' (ls_items shared_storage)
       = ls_items shared_storage @ [ (''taskManagementApp_n'', ''1'') ]"
    by (simp add: shared_storage_def fullKey_def app_manager_def)
  from saved [THEN conjunct1]
  have 1: "save example_platform (app_manager True) ''n'' (JNum 1) shared_storage
       = (Inr True, shared_storage\<lparr> ls_items :=
            ls_items shared_storage @ [ (''taskManagementApp_n'', ''1'') ] \<rparr>)"
    unfolding appended .
  from saved [THEN conjunct2]
  have 5: "load example_platform (app_manager True) ''n'' JNull
        (snd (save example_platform (app_manager True) ''n'' (JNum 1) shared_storage))
       = Inr (JNum 1)" .
  from c [THEN conjunct2, THEN conjunct1, rule_format, OF on w over]
  have 2: "save example_platform (app_manager True) ''tasks'' (JNum 1) small_storage
       = (Inr False, small_storage)" .
  from c [THEN conjunct2, THEN conjunct2, THEN conjunct1, rule_format, OF absent]
  have 3: "load example_platform (app_manager True) ''missing'' (JStr ''D'') shared_storage
       = Inr (JStr ''D'')"
    "load example_platform (app_manager True) ''missing'' JUndefined shared_storage
       = Inr JNull"
    by simp_all
  from c [THEN conjunct2, THEN conjunct2, THEN conjunct2, THEN conjunct1, rule_format,
      OF present garbled]
  have 4: "load example_platform (app_manager True) ''b'' (JStr ''D'') shared_storage
       = Inr (JStr ''D'')"
    by simp
  from over have over': "ls_quota small_storage
       < stored_size (AList.update (fullKey (app_manager True) ''tasks'') ''1''
           (ls_items small_storage))"
    by (simp add: small_storage_def)
  show ?thesis
    using on one_serializable w room over' absent present garbled 1 2 3 4 5 by simp
qed

end
